theory Spec2Isabelle
  imports Complex_Main "HOL-Library.Sublist"
begin

section \<open>Values shared by both scripts\<close>

text \<open>
  Both scripts handle decoded JSON. A Python \<open>dict\<close> is an association list whose
  lookup is \<open>map_of\<close>; numbers are kept as reals (a JSON literal is a decimal).
  Strings are ASCII: the emoji that the scripts put in front of their console lines,
  and the quotation marks inside those lines, are left out of the modelled text.
\<close>

datatype json =
    JNull
  | JBool bool
  | JNum real
  | JStr string
  | JArr "json list"
  | JObj "(string \<times> json) list"

datatype exn =
    AttributeError
  | TypeError
  | ValueError
  | KeyError
  | IndexError
  | OSError
  | RequestsJSONDecodeError
  | EOFError
  | KeyboardInterrupt

text \<open>Python's truth value of a decoded JSON value (\<open>if x:\<close>).\<close>

fun truthy :: "json \<Rightarrow> bool" where
  "truthy JNull = False"
| "truthy (JBool b) = b"
| "truthy (JNum x) = (x \<noteq> 0)"
| "truthy (JStr s) = (s \<noteq> [])"
| "truthy (JArr xs) = (xs \<noteq> [])"
| "truthy (JObj kvs) = (kvs \<noteq> [])"

text \<open>\<open>x.get(key, default)\<close>: only a dict has \<open>get\<close>.\<close>

fun py_get :: "json \<Rightarrow> string \<Rightarrow> json \<Rightarrow> exn + json" where
  "py_get (JObj kvs) k d = Inr (case map_of kvs k of None \<Rightarrow> d | Some v \<Rightarrow> v)"
| "py_get _ k d = Inl AttributeError"

text \<open>\<open>x[key]\<close> with a string key, on a decoded JSON value.\<close>

fun py_item :: "json \<Rightarrow> string \<Rightarrow> exn + json" where
  "py_item (JObj kvs) k = (case map_of kvs k of None \<Rightarrow> Inl KeyError | Some v \<Rightarrow> Inr v)"
| "py_item _ k = Inl TypeError"

section \<open>Dashboard server: status classes of the page script\<close>

text \<open>
  \<open>getStatusClass(metric, value, threshold, comparison)\<close> of the page script, and the
  four calls of \<open>updateStatusCards\<close>. A metric of the latest snapshot is a number or
  is missing; \<open>metrics.x || 0\<close> turns a missing one into 0.
\<close>

definition getStatusClass :: "string \<Rightarrow> real \<Rightarrow> real \<Rightarrow> string \<Rightarrow> string" where
  "getStatusClass metric v threshold comparison =
     (if comparison = ''gt''
      then (if v > threshold then ''critical'' else ''good'')
      else (if v < threshold then ''critical'' else ''good''))"

definition or_zero :: "real option \<Rightarrow> real" where
  "or_zero v = (case v of None \<Rightarrow> 0 | Some x \<Rightarrow> x)"

record metrics =
  build_time :: "real option"
  test_time :: "real option"
  coverage :: "real option"
  memory_mb :: "real option"

definition buildStatus :: "metrics \<Rightarrow> string" where
  "buildStatus m = getStatusClass ''build_time'' (or_zero (build_time m)) 180 ''gt''"

definition testStatus :: "metrics \<Rightarrow> string" where
  "testStatus m = getStatusClass ''test_time'' (or_zero (test_time m)) 120 ''gt''"

definition coverageStatus :: "metrics \<Rightarrow> string" where
  "coverageStatus m = getStatusClass ''coverage'' (or_zero (coverage m)) 82 ''lt''"

definition memoryStatus :: "metrics \<Rightarrow> string" where
  "memoryStatus m = getStatusClass ''memory_mb'' (or_zero (memory_mb m)) 200 ''gt''"

section \<open>Dashboard server: the alert log\<close>

text \<open>
  \<open>f.readlines()\<close> cuts the text (as decoded, line ends already translated to the
  newline character) after every newline and keeps the newline;
  \<open>line.strip()\<close> removes the white space at both ends (the characters below 256 that
  \<open>str.isspace\<close> accepts); \<open>xs[-10:]\<close> keeps the last ten elements, or all of them.
\<close>

fun readlines_from :: "string \<Rightarrow> string \<Rightarrow> string list" where
  "readlines_from cur [] = (if cur = [] then [] else [cur])"
| "readlines_from cur (c # cs) =
     (if c = CHR 0x0A then (cur @ [c]) # readlines_from [] cs
      else readlines_from (cur @ [c]) cs)"

definition readlines :: "string \<Rightarrow> string list" where
  "readlines text = readlines_from [] text"

definition isspace :: "char \<Rightarrow> bool" where
  "isspace c = (c \<in> set [CHR 0x09, CHR 0x0A, CHR 0x0B, CHR 0x0C, CHR 0x0D,
                          CHR 0x1C, CHR 0x1D, CHR 0x1E, CHR 0x1F, CHR 0x20,
                          CHR 0x85, CHR 0xA0])"

definition strip :: "string \<Rightarrow> string" where
  "strip s = rev (dropWhile isspace (rev (dropWhile isspace s)))"

definition last10 :: "'a list \<Rightarrow> 'a list" where
  "last10 xs = drop (length xs - 10) xs"

text \<open>
  The two statements inside \<open>with open(alert_file) as f\<close> of \<open>get_metrics\<close>:
  first the slice, then the comprehension over the slice.
\<close>

definition read_alerts :: "string \<Rightarrow> string list" where
  "read_alerts text =
     (let alerts = last10 (readlines text)
      in map strip (filter (\<lambda>line. strip line \<noteq> []) alerts))"

text \<open>
  What the specification asks for, in its own words: the last 10 non-empty lines of the
  file, stripped.
\<close>

definition last_nonempty_lines_spec :: "string \<Rightarrow> string list" where
  "last_nonempty_lines_spec text =
     last10 (filter (\<lambda>line. line \<noteq> []) (map strip (readlines text)))"

section \<open>Dashboard server: the files it touches\<close>

text \<open>
  The file system as far as the server sees it: a path holds a readable text file, or
  something that exists but cannot be opened and decoded as text, or a directory, or
  nothing.
\<close>

type_synonym path = string

datatype node = File string | Unreadable

record store =
  files :: "path \<rightharpoonup> node"
  dirs :: "path set"

definition PERFORMANCE_DIR :: path where
  "PERFORMANCE_DIR = ''performance''"

definition STATE_FILE :: path where
  "STATE_FILE = PERFORMANCE_DIR @ ''/monitor_state.json''"

definition DASHBOARD_DIR :: path where
  "DASHBOARD_DIR = PERFORMANCE_DIR @ ''/dashboard''"

definition ALERT_FILE :: path where
  "ALERT_FILE = PERFORMANCE_DIR @ ''/alerts.log''"

definition path_exists :: "store \<Rightarrow> path \<Rightarrow> bool" where
  "path_exists st p = (files st p \<noteq> None \<or> p \<in> dirs st)"

text \<open>\<open>with open(p) as f\<close> followed by a read of the whole text: mode \<open>'r'\<close>.\<close>

definition open_read :: "store \<Rightarrow> path \<Rightarrow> exn + string" where
  "open_read st p = (case files st p of Some (File text) \<Rightarrow> Inr text | _ \<Rightarrow> Inl OSError)"

text \<open>\<open>Path.mkdir(exist_ok=True)\<close>: a file in the way raises, a directory is kept.\<close>

definition mkdir_exist_ok :: "path \<Rightarrow> store \<Rightarrow> exn + store" where
  "mkdir_exist_ok p st =
     (if files st p \<noteq> None then Inl OSError else Inr (st\<lparr>dirs := insert p (dirs st)\<rparr>))"

section \<open>Dashboard server: \<open>PerformanceData\<close>\<close>

definition default_data :: json where
  "default_data = JObj [(''consecutive_failures'', JNum 0),
                        (''last_successful_run'', JStr ''''),
                        (''metrics_history'', JArr [])]"

text \<open>
  \<open>load_data\<close>. The JSON decoder is the library's and is a parameter: \<open>None\<close> is its
  exception. The line that \<open>load_data\<close> prints in its handler is not modelled. The
  store is returned as the call leaves it.
\<close>

definition load_data :: "(string \<Rightarrow> json option) \<Rightarrow> store \<Rightarrow> json \<times> store" where
  "load_data json_load st =
     (if path_exists st STATE_FILE
      then (case open_read st STATE_FILE of
              Inl e \<Rightarrow> (default_data, st)
            | Inr text \<Rightarrow>
                (case json_load text of
                   None \<Rightarrow> (default_data, st)
                 | Some d \<Rightarrow> (d, st)))
      else (default_data, st))"

text \<open>\<open>x[-1]\<close> on a decoded JSON value.\<close>

fun py_last :: "json \<Rightarrow> exn + json" where
  "py_last (JArr xs) = (if xs = [] then Inl IndexError else Inr (last xs))"
| "py_last (JStr s) = (if s = [] then Inl IndexError else Inr (JStr [last s]))"
| "py_last (JObj kvs) = Inl KeyError"
| "py_last _ = Inl TypeError"

definition get_latest_metrics :: "json \<Rightarrow> exn + json" where
  "get_latest_metrics data =
     (case py_get data ''metrics_history'' JNull of
        Inl e \<Rightarrow> Inl e
      | Inr h \<Rightarrow>
          (if truthy h
           then (case py_item data ''metrics_history'' of
                   Inl e \<Rightarrow> Inl e
                 | Inr h' \<Rightarrow> py_last h')
           else Inr (JObj [])))"

text \<open>
  A \<open>datetime\<close> is naive (a wall-clock reading, in microseconds) or aware (a reading
  and its UTC offset). Ordering a naive against an aware one raises \<open>TypeError\<close>.
  \<open>datetime.now()\<close> is naive.
\<close>

datatype datetime = Naive int | Aware int int

fun datetime_ge :: "datetime \<Rightarrow> datetime \<Rightarrow> exn + bool" where
  "datetime_ge (Naive a) (Naive b) = Inr (a \<ge> b)"
| "datetime_ge (Aware a oa) (Aware b ob) = Inr (a - oa \<ge> b - ob)"
| "datetime_ge _ _ = Inl TypeError"

definition cutoff_time :: "int \<Rightarrow> int \<Rightarrow> datetime" where
  "cutoff_time now hours = Naive (now - hours * 3600000000)"

text \<open>\<open>s.replace("Z", "+00:00")\<close>.\<close>

definition replace_Z :: "string \<Rightarrow> string" where
  "replace_Z s = concat (map (\<lambda>c. if c = CHR ''Z'' then ''+00:00'' else [c]) s)"

text \<open>\<open>for entry in x\<close> on a decoded JSON value.\<close>

fun py_iter :: "json \<Rightarrow> exn + json list" where
  "py_iter (JArr xs) = Inr xs"
| "py_iter (JStr s) = Inr (map (\<lambda>c. JStr [c]) s)"
| "py_iter (JObj kvs) = Inr (map (\<lambda>kv. JStr (fst kv)) kvs)"
| "py_iter _ = Inl TypeError"

text \<open>
  The body of the \<open>try\<close> in \<open>get_trend_data\<close>, for one entry: an exception, or the
  point to append, or nothing to append. \<open>datetime.fromisoformat\<close> is the library's
  and is a parameter: \<open>None\<close> is its \<open>ValueError\<close>.
\<close>

definition trend_try :: "(string \<Rightarrow> datetime option) \<Rightarrow> datetime \<Rightarrow> string \<Rightarrow> json
    \<Rightarrow> exn + json option" where
  "trend_try fromisoformat cutoff metric entry =
     (case py_get entry ''timestamp'' (JStr '''') of
        Inl e \<Rightarrow> Inl e
      | Inr ts \<Rightarrow>
          (case ts of
             JStr s \<Rightarrow>
               (case fromisoformat (replace_Z s) of
                  None \<Rightarrow> Inl ValueError
                | Some entry_time \<Rightarrow>
                    (case datetime_ge entry_time cutoff of
                       Inl e \<Rightarrow> Inl e
                     | Inr inside \<Rightarrow>
                         (if inside
                          then (case py_item entry ''timestamp'' of
                                  Inl e \<Rightarrow> Inl e
                                | Inr t \<Rightarrow>
                                    (case py_get entry metric (JNum 0) of
                                       Inl e \<Rightarrow> Inl e
                                     | Inr v \<Rightarrow>
                                         Inr (Some (JObj [(''timestamp'', t), (''value'', v)]))))
                          else Inr None)))
           | _ \<Rightarrow> Inl AttributeError))"

text \<open>One turn of the loop: \<open>except Exception: continue\<close>.\<close>

definition trend_point :: "(string \<Rightarrow> datetime option) \<Rightarrow> datetime \<Rightarrow> string \<Rightarrow> json
    \<Rightarrow> json option" where
  "trend_point fromisoformat cutoff metric entry =
     (case trend_try fromisoformat cutoff metric entry of
        Inl e \<Rightarrow> None
      | Inr r \<Rightarrow> r)"

fun trend_loop :: "(string \<Rightarrow> datetime option) \<Rightarrow> datetime \<Rightarrow> string \<Rightarrow> json list
    \<Rightarrow> json list" where
  "trend_loop fromisoformat cutoff metric [] = []"
| "trend_loop fromisoformat cutoff metric (entry # rest) =
     (case trend_point fromisoformat cutoff metric entry of
        None \<Rightarrow> trend_loop fromisoformat cutoff metric rest
      | Some p \<Rightarrow> p # trend_loop fromisoformat cutoff metric rest)"

text \<open>
  \<open>get_trend_data(metric, hours)\<close> on the loaded data, at wall-clock time \<open>now\<close>.
  The two statements before the loop are outside the \<open>try\<close>.
\<close>

definition get_trend_data :: "(string \<Rightarrow> datetime option) \<Rightarrow> int \<Rightarrow> json \<Rightarrow> string \<Rightarrow> int
    \<Rightarrow> exn + json list" where
  "get_trend_data fromisoformat now data metric hours =
     (case py_get data ''metrics_history'' (JArr []) of
        Inl e \<Rightarrow> Inl e
      | Inr h \<Rightarrow>
          (case py_iter h of
             Inl e \<Rightarrow> Inl e
           | Inr entries \<Rightarrow>
               Inr (trend_loop fromisoformat (cutoff_time now hours) metric entries)))"

text \<open>
  The claim's reading of the trend, in its own words: the entries whose timestamp
  parses and lies in a window, projected, in history order. The window of the claim is
  the trailing one of \<open>hours\<close> hours that ends at call time; \<open>since_cutoff\<close> is the
  window with no upper end. \<open>utcoffset\<close> is the server's own UTC offset, by which an
  aware timestamp is placed on the server's clock.
\<close>

definition in_trailing_window :: "int \<Rightarrow> int \<Rightarrow> int \<Rightarrow> datetime \<Rightarrow> bool" where
  "in_trailing_window utcoffset now hours t =
     (case t of
        Naive a \<Rightarrow> now - hours * 3600000000 \<le> a \<and> a \<le> now
      | Aware a off \<Rightarrow>
          now - hours * 3600000000 \<le> a - off + utcoffset \<and> a - off + utcoffset \<le> now)"

definition since_cutoff :: "int \<Rightarrow> int \<Rightarrow> int \<Rightarrow> datetime \<Rightarrow> bool" where
  "since_cutoff utcoffset now hours t =
     (case t of
        Naive a \<Rightarrow> now - hours * 3600000000 \<le> a
      | Aware a off \<Rightarrow> now - hours * 3600000000 \<le> a - off + utcoffset)"

definition trend_point_spec :: "(string \<Rightarrow> datetime option) \<Rightarrow> (datetime \<Rightarrow> bool) \<Rightarrow> string
    \<Rightarrow> json \<Rightarrow> json option" where
  "trend_point_spec fromisoformat window metric entry =
     (case entry of
        JObj kvs \<Rightarrow>
          (case map_of kvs ''timestamp'' of
             Some (JStr s) \<Rightarrow>
               (case fromisoformat (replace_Z s) of
                  None \<Rightarrow> None
                | Some t \<Rightarrow>
                    (if window t
                     then Some (JObj [(''timestamp'', JStr s),
                                      (''value'', case map_of kvs metric of
                                                    None \<Rightarrow> JNum 0 | Some v \<Rightarrow> v)])
                     else None))
           | _ \<Rightarrow> None)
      | _ \<Rightarrow> None)"

definition trend_spec :: "(string \<Rightarrow> datetime option) \<Rightarrow> (datetime \<Rightarrow> bool) \<Rightarrow> string
    \<Rightarrow> json list \<Rightarrow> json list" where
  "trend_spec fromisoformat window metric entries =
     List.map_filter (trend_point_spec fromisoformat window metric) entries"

text \<open>An entry whose timestamp, if it parses, carries no UTC offset.\<close>

definition naive_timestamp :: "(string \<Rightarrow> datetime option) \<Rightarrow> json \<Rightarrow> bool" where
  "naive_timestamp fromisoformat entry =
     (case entry of
        JObj kvs \<Rightarrow>
          (case map_of kvs ''timestamp'' of
             Some (JStr s) \<Rightarrow>
               (case fromisoformat (replace_Z s) of
                  Some (Aware a off) \<Rightarrow> False
                | _ \<Rightarrow> True)
           | _ \<Rightarrow> True)
      | _ \<Rightarrow> True)"

text \<open>The state file is absent, or cannot be read, or its text does not decode.\<close>

definition state_fails_to_load :: "(string \<Rightarrow> json option) \<Rightarrow> store \<Rightarrow> bool" where
  "state_fails_to_load json_load st =
     (case files st STATE_FILE of
        Some (File text) \<Rightarrow> json_load text = None
      | _ \<Rightarrow> True)"

text \<open>
  A fragment of \<open>datetime.fromisoformat\<close>, for concrete inputs: exactly
  \<open>YYYY-MM-DDTHH:MM:SS\<close>, alone (naive) or followed by \<open>+HH:MM\<close> or \<open>-HH:MM\<close>
  (aware). The reading counts microseconds from 0001-01-01T00:00:00, by the
  proleptic Gregorian calendar of the library.
\<close>

definition digit_of :: "char \<Rightarrow> int option" where
  "digit_of c = map_of (zip ''0123456789'' [0, 1, 2, 3, 4, 5, 6, 7, 8, 9]) c"

fun number_from :: "int \<Rightarrow> string \<Rightarrow> int option" where
  "number_from acc [] = Some acc"
| "number_from acc (c # cs) =
     (case digit_of c of None \<Rightarrow> None | Some d \<Rightarrow> number_from (10 * acc + d) cs)"

definition is_leap :: "int \<Rightarrow> bool" where
  "is_leap y = (y mod 4 = 0 \<and> (if y mod 100 = 0 then y mod 400 = 0 else True))"

definition days_in_month :: "int \<Rightarrow> int \<Rightarrow> int" where
  "days_in_month y m =
     (if m = 2 then (if is_leap y then 29 else 28)
      else if m = 4 \<or> m = 6 \<or> m = 9 \<or> m = 11 then 30 else 31)"

definition days_before_year :: "int \<Rightarrow> int" where
  "days_before_year y = (y - 1) * 365 + (y - 1) div 4 - (y - 1) div 100 + (y - 1) div 400"

definition days_before_month :: "int \<Rightarrow> int \<Rightarrow> int" where
  "days_before_month y m =
     [0, 31, 59, 90, 120, 151, 181, 212, 243, 273, 304, 334] ! nat (m - 1)
       + (if m > 2 \<and> is_leap y then 1 else 0)"

definition wall_clock :: "int \<Rightarrow> int \<Rightarrow> int \<Rightarrow> int \<Rightarrow> int \<Rightarrow> int \<Rightarrow> int" where
  "wall_clock y m d hh mi ss =
     ((days_before_year y + days_before_month y m + d - 1) * 86400
        + hh * 3600 + mi * 60 + ss) * 1000000"

definition parse_offset :: "string \<Rightarrow> int option" where
  "parse_offset s =
     (if length s = 6 \<and> (s ! 0 = CHR ''+'' \<or> s ! 0 = CHR ''-'') \<and> s ! 3 = CHR '':''
      then (case (number_from 0 (take 2 (drop 1 s)), number_from 0 (take 2 (drop 4 s))) of
              (Some hh, Some mi) \<Rightarrow>
                (if hh < 24 \<and> mi < 60
                 then Some ((if s ! 0 = CHR ''-'' then - 1 else 1) * (hh * 3600 + mi * 60) * 1000000)
                 else None)
            | _ \<Rightarrow> None)
      else None)"

definition fromisoformat_basic :: "string \<Rightarrow> datetime option" where
  "fromisoformat_basic s =
     (if (length s = 19 \<or> length s = 25)
         \<and> s ! 4 = CHR ''-'' \<and> s ! 7 = CHR ''-'' \<and> s ! 10 = CHR ''T''
         \<and> s ! 13 = CHR '':'' \<and> s ! 16 = CHR '':''
      then (case (number_from 0 (take 4 s), number_from 0 (take 2 (drop 5 s)),
                  number_from 0 (take 2 (drop 8 s)), number_from 0 (take 2 (drop 11 s)),
                  number_from 0 (take 2 (drop 14 s)), number_from 0 (take 2 (drop 17 s))) of
              (Some y, Some m, Some d, Some hh, Some mi, Some ss) \<Rightarrow>
                (if 1 \<le> y \<and> 1 \<le> m \<and> m \<le> 12 \<and> 1 \<le> d \<and> d \<le> days_in_month y m
                    \<and> hh < 24 \<and> mi < 60 \<and> ss < 60
                 then (if length s = 19 then Some (Naive (wall_clock y m d hh mi ss))
                       else (case parse_offset (drop 19 s) of
                               None \<Rightarrow> None
                             | Some off \<Rightarrow> Some (Aware (wall_clock y m d hh mi ss) off)))
                 else None)
            | _ \<Rightarrow> None)
      else None)"

section \<open>Dashboard server: the routes\<close>

text \<open>The alert block of \<open>get_metrics\<close>: any exception leaves the empty list.\<close>

definition recent_alerts :: "store \<Rightarrow> string list" where
  "recent_alerts st =
     (if path_exists st ALERT_FILE
      then (case open_read st ALERT_FILE of
              Inl e \<Rightarrow> []
            | Inr text \<Rightarrow> read_alerts text)
      else [])"

text \<open>
  \<open>get_metrics\<close> on the data loaded last. Each of the four trend calls reads the
  clock itself: \<open>now1\<close> to \<open>now4\<close>.
\<close>

definition get_metrics :: "(string \<Rightarrow> datetime option) \<Rightarrow> int \<Rightarrow> int \<Rightarrow> int \<Rightarrow> int
    \<Rightarrow> json \<Rightarrow> store \<Rightarrow> (exn + json) \<times> store" where
  "get_metrics fromisoformat now1 now2 now3 now4 data st =
     (case get_latest_metrics data of
        Inl e \<Rightarrow> (Inl e, st)
      | Inr latest \<Rightarrow>
     (case get_trend_data fromisoformat now1 data ''build_time'' 24 of
        Inl e \<Rightarrow> (Inl e, st)
      | Inr t1 \<Rightarrow>
     (case get_trend_data fromisoformat now2 data ''test_time'' 24 of
        Inl e \<Rightarrow> (Inl e, st)
      | Inr t2 \<Rightarrow>
     (case get_trend_data fromisoformat now3 data ''coverage'' 24 of
        Inl e \<Rightarrow> (Inl e, st)
      | Inr t3 \<Rightarrow>
     (case get_trend_data fromisoformat now4 data ''memory_mb'' 24 of
        Inl e \<Rightarrow> (Inl e, st)
      | Inr t4 \<Rightarrow>
     (case py_get data ''consecutive_failures'' (JNum 0) of
        Inl e \<Rightarrow> (Inl e, st)
      | Inr status \<Rightarrow>
          (Inr (JObj [(''latest'', latest),
                      (''trends'', JObj [(''build_time'', JArr t1),
                                         (''test_time'', JArr t2),
                                         (''coverage'', JArr t3),
                                         (''memory_mb'', JArr t4)]),
                      (''alerts'', JArr (map JStr (recent_alerts st))),
                      (''status'', status)]), st)))))))"

section \<open>Dashboard server: the on-demand check\<close>

text \<open>
  The monitoring script is external. What
  \<open>subprocess.run(..., capture_output=True, text=True, timeout=300)\<close> observes of it: it
  cannot be started, or it runs for some time (\<open>None\<close>: for ever) and then leaves an
  exit code, its standard output and its standard error. With \<open>text=True\<close> the two
  captured outputs are decoded once the process has ended, the standard output first;
  what a process wrote decodes to a text, or it does not, and then the decoding raises
  \<open>UnicodeDecodeError\<close> with some message. The timeout is raised before any decoding.
\<close>

datatype captured = Decoded string | Undecodable string

datatype process =
    CannotStart string
  | Runs "real option" int captured captured

datatype run_result =
    Completed int string string
  | TimeoutExpired
  | Failed string

fun subprocess_run :: "process \<Rightarrow> real \<Rightarrow> run_result" where
  "subprocess_run (CannotStart msg) timeout = Failed msg"
| "subprocess_run (Runs None rc out err) timeout = TimeoutExpired"
| "subprocess_run (Runs (Some d) rc out err) timeout =
     (if d \<le> timeout
      then (case out of
              Undecodable msg \<Rightarrow> Failed msg
            | Decoded stdout \<Rightarrow>
                (case err of
                   Undecodable msg \<Rightarrow> Failed msg
                 | Decoded stderr \<Rightarrow> Completed rc stdout stderr))
      else TimeoutExpired)"

definition jsonify_message :: "string \<Rightarrow> json" where
  "jsonify_message msg = JObj [(''message'', JStr msg)]"

definition run_check :: "process \<Rightarrow> exn + json" where
  "run_check p =
     (case subprocess_run p 300 of
        Completed rc out err \<Rightarrow>
          (if rc = 0 then Inr (jsonify_message ''Performance check completed successfully!'')
           else Inr (jsonify_message (''Performance check failed: '' @ err)))
      | TimeoutExpired \<Rightarrow> Inr (jsonify_message ''Performance check timed out'')
      | Failed msg \<Rightarrow> Inr (jsonify_message (''Error running check: '' @ msg)))"

text \<open>
  The server as a whole: the data loaded last (\<open>perf_data.data\<close>) and the disk. The
  monitoring script that \<open>run_check\<close> starts is external: a parameter that gives what
  the server observes of the process and the disk as the process leaves it.
\<close>

record server =
  loaded :: json
  disk :: store

datatype request = GetIndex | GetMetrics int int int int | PostRunCheck

datatype action = Startup | RefreshTick | Handle request

datatype reply = Page | Body json | Uncaught exn | Nothing

text \<open>\<open>perf_data = PerformanceData()\<close>, at import.\<close>

definition initial_server :: "(string \<Rightarrow> json option) \<Rightarrow> store \<Rightarrow> server" where
  "initial_server json_load st =
     (case load_data json_load st of (d, st') \<Rightarrow> \<lparr>loaded = d, disk = st'\<rparr>)"

text \<open>The two \<open>mkdir\<close> calls of the \<open>__main__\<close> block.\<close>

definition startup :: "store \<Rightarrow> reply \<times> store" where
  "startup st =
     (case mkdir_exist_ok PERFORMANCE_DIR st of
        Inl e \<Rightarrow> (Uncaught e, st)
      | Inr st1 \<Rightarrow>
          (case mkdir_exist_ok DASHBOARD_DIR st1 of
             Inl e \<Rightarrow> (Uncaught e, st1)
           | Inr st2 \<Rightarrow> (Nothing, st2)))"

definition reply_of :: "exn + json \<Rightarrow> reply" where
  "reply_of r = (case r of Inl e \<Rightarrow> Uncaught e | Inr j \<Rightarrow> Body j)"

fun server_step :: "(string \<Rightarrow> json option) \<Rightarrow> (string \<Rightarrow> datetime option)
    \<Rightarrow> (store \<Rightarrow> process \<times> store) \<Rightarrow> action \<Rightarrow> server \<Rightarrow> reply \<times> server" where
  "server_step json_load fromisoformat monitor Startup srv =
     (case startup (disk srv) of (r, st') \<Rightarrow> (r, srv\<lparr>disk := st'\<rparr>))"
| "server_step json_load fromisoformat monitor RefreshTick srv =
     (case load_data json_load (disk srv) of (d, st') \<Rightarrow> (Nothing, \<lparr>loaded = d, disk = st'\<rparr>))"
| "server_step json_load fromisoformat monitor (Handle GetIndex) srv = (Page, srv)"
| "server_step json_load fromisoformat monitor (Handle (GetMetrics n1 n2 n3 n4)) srv =
     (case get_metrics fromisoformat n1 n2 n3 n4 (loaded srv) (disk srv) of
        (r, st') \<Rightarrow> (reply_of r, srv\<lparr>disk := st'\<rparr>))"
| "server_step json_load fromisoformat monitor (Handle PostRunCheck) srv =
     (case monitor (disk srv) of
        (p, st') \<Rightarrow> (reply_of (run_check p), srv\<lparr>disk := st'\<rparr>))"

text \<open>Any number of refresh ticks and requests, one after the other.\<close>

fun server_run :: "(string \<Rightarrow> json option) \<Rightarrow> (string \<Rightarrow> datetime option)
    \<Rightarrow> (store \<Rightarrow> process \<times> store) \<Rightarrow> action list \<Rightarrow> server \<Rightarrow> server" where
  "server_run json_load fromisoformat monitor [] srv = srv"
| "server_run json_load fromisoformat monitor (a # as) srv =
     server_run json_load fromisoformat monitor as
       (snd (server_step json_load fromisoformat monitor a srv))"

section \<open>Protection configurator: the world and the run\<close>

record BranchProtectionConfig =
  name :: string
  required_status_checks :: "string list"
  required_approving_review_count :: int
  dismiss_stale_reviews :: bool
  require_code_owner_reviews :: bool
  require_last_push_approval :: bool
  required_linear_history :: bool
  allow_force_pushes :: bool
  allow_deletions :: bool
  required_conversation_resolution :: bool
  strict_status_checks :: bool

text \<open>
  What the script meets outside itself: the environment variable, the \<open>gh\<close> tool, the
  API (the outcome of the request sent as number \<open>k\<close>, counted from 0, whatever the
  request is) and the line typed at the prompt. \<open>json_body\<close> is what
  \<open>response.json()\<close> returns, \<open>None\<close> when it raises.
\<close>

datatype http_method = GET | PUT | POST | DELETE

record response =
  status_code :: int
  json_body :: "json option"
  text_body :: string

datatype http_result = Responds response | RequestException string

datatype gh_result = GhNotFound | GhExited int string | GhOtherError

datatype input_result = Typed string | InputEOF | InputInterrupt

record world =
  env_token :: "string option"
  gh_cli :: gh_result
  http :: "nat \<Rightarrow> http_result"
  user_input :: input_result

text \<open>
  What the script does to the outside, in order: lines printed (an f-string is the list
  of its pieces), requests sent, the tool started, the prompt, the pauses.
\<close>

datatype piece = Txt string | Num int | Val json | Exc exn

datatype event =
    Print "piece list"
  | Request http_method string "json option"
  | Spawn "string list"
  | Prompt string
  | Sleep nat

datatype 'a res = Return 'a | Exit int | Raise exn

type_synonym 'a io = "event list \<Rightarrow> 'a res \<times> event list"

definition return_io :: "'a \<Rightarrow> 'a io" where
  "return_io x t = (Return x, t)"

definition exit_io :: "int \<Rightarrow> 'a io" where
  "exit_io c t = (Exit c, t)"

definition raise_io :: "exn \<Rightarrow> 'a io" where
  "raise_io e t = (Raise e, t)"

definition bind_io :: "'a io \<Rightarrow> ('a \<Rightarrow> 'b io) \<Rightarrow> 'b io" where
  "bind_io m f t =
     (case m t of
        (Return x, t') \<Rightarrow> f x t'
      | (Exit c, t') \<Rightarrow> (Exit c, t')
      | (Raise e, t') \<Rightarrow> (Raise e, t'))"

definition lift_exn :: "exn + 'a \<Rightarrow> 'a io" where
  "lift_exn r = (case r of Inl e \<Rightarrow> raise_io e | Inr x \<Rightarrow> return_io x)"

definition emit :: "event \<Rightarrow> unit io" where
  "emit e t = (Return (), t @ [e])"

definition prints :: "piece list list \<Rightarrow> unit io" where
  "prints ls t = (Return (), t @ map Print ls)"

definition is_request :: "event \<Rightarrow> bool" where
  "is_request e = (case e of Request m ep b \<Rightarrow> True | _ \<Rightarrow> False)"

definition is_put :: "event \<Rightarrow> bool" where
  "is_put e = (case e of Request m ep b \<Rightarrow> m = PUT | _ \<Rightarrow> False)"

section \<open>Protection configurator: \<open>GitHubAPIClient\<close>\<close>

text \<open>
  \<open>_make_request\<close>. Its callers pass the literals \<open>"GET"\<close> and \<open>"PUT"\<close> only, so the
  method is one of the four it accepts. A \<open>RequestException\<close> ends the process.
\<close>

definition make_request :: "world \<Rightarrow> http_method \<Rightarrow> string \<Rightarrow> json option \<Rightarrow> response io" where
  "make_request w method endpoint body t =
     (case http w (length (filter is_request t)) of
        Responds r \<Rightarrow> (Return r, t @ [Request method endpoint body])
      | RequestException msg \<Rightarrow>
          (Exit 1, t @ [Request method endpoint body, Print [Txt ''Request failed: '', Txt msg]]))"

definition response_json :: "response \<Rightarrow> json io" where
  "response_json r =
     (case json_body r of None \<Rightarrow> raise_io RequestsJSONDecodeError | Some j \<Rightarrow> return_io j)"

definition get_repository_info :: "world \<Rightarrow> json io" where
  "get_repository_info w =
     bind_io (make_request w GET [] None) (\<lambda>r.
       if status_code r = 200 then response_json r
       else bind_io (prints [[Txt ''Failed to get repository info: '', Num (status_code r)],
                             [Txt (text_body r)]])
              (\<lambda>_. exit_io 1))"

text \<open>\<open>get_branch_protection\<close>; Python's \<open>None\<close> is \<open>JNull\<close>.\<close>

definition get_branch_protection :: "world \<Rightarrow> string \<Rightarrow> json io" where
  "get_branch_protection w branch =
     bind_io (make_request w GET (''branches/'' @ branch @ ''/protection'') None) (\<lambda>r.
       if status_code r = 200 then response_json r
       else if status_code r = 404 then return_io JNull
       else bind_io (prints [[Txt ''Failed to get branch protection for '', Txt branch,
                              Txt '': '', Num (status_code r)]])
              (\<lambda>_. return_io JNull))"

definition protection_data :: "string \<Rightarrow> BranchProtectionConfig \<Rightarrow> json" where
  "protection_data branch config =
     JObj [(''required_status_checks'',
              JObj [(''strict'', JBool (strict_status_checks config)),
                    (''checks'', JArr (map (\<lambda>check. JObj [(''context'', JStr check)])
                                        (required_status_checks config)))]),
           (''enforce_admins'', JBool False),
           (''required_pull_request_reviews'',
              JObj [(''required_approving_review_count'',
                       JNum (of_int (required_approving_review_count config))),
                    (''dismiss_stale_reviews'', JBool (dismiss_stale_reviews config)),
                    (''require_code_owner_reviews'', JBool (require_code_owner_reviews config)),
                    (''require_last_push_approval'', JBool (require_last_push_approval config))]),
           (''restrictions'', JNull),
           (''required_linear_history'', JBool (required_linear_history config)),
           (''allow_force_pushes'', JBool (allow_force_pushes config)),
           (''allow_deletions'', JBool (allow_deletions config)),
           (''block_creations'', JBool False),
           (''required_conversation_resolution'', JBool (required_conversation_resolution config)),
           (''lock_branch'', JBool False),
           (''allow_fork_syncing'', JBool (branch \<noteq> ''main''))]"

definition set_branch_protection :: "world \<Rightarrow> string \<Rightarrow> BranchProtectionConfig \<Rightarrow> bool io" where
  "set_branch_protection w branch config =
     bind_io (prints [[Txt ''Setting up protection for '', Txt branch, Txt '' branch...'']]) (\<lambda>_.
     bind_io (make_request w PUT (''branches/'' @ branch @ ''/protection'')
                (Some (protection_data branch config))) (\<lambda>r.
       if status_code r = 200
       then bind_io (prints [[Txt ''Branch protection configured successfully for '', Txt branch]])
              (\<lambda>_. return_io True)
       else bind_io (prints [[Txt ''Failed to configure branch protection for '', Txt branch,
                              Txt '': '', Num (status_code r)],
                             [Txt (text_body r)]])
              (\<lambda>_. return_io False)))"

definition enable_vulnerability_alerts :: "world \<Rightarrow> bool io" where
  "enable_vulnerability_alerts w =
     bind_io (make_request w PUT ''vulnerability-alerts'' None) (\<lambda>r.
       return_io (status_code r = 200 \<or> status_code r = 204))"

definition enable_automated_security_fixes :: "world \<Rightarrow> bool io" where
  "enable_automated_security_fixes w =
     bind_io (make_request w PUT ''automated-security-fixes'' None) (\<lambda>r.
       return_io (status_code r = 200 \<or> status_code r = 204))"

section \<open>Protection configurator: the script\<close>

definition token_not_found :: "string io" where
  "token_not_found =
     bind_io (prints [[Txt ''GitHub token not found. Please set GITHUB_TOKEN environment variable or run gh auth login'']])
       (\<lambda>_. exit_io 1)"

definition token_from_cli :: "world \<Rightarrow> string io" where
  "token_from_cli w =
     bind_io (emit (Spawn [''gh'', ''auth'', ''token''])) (\<lambda>_.
       case gh_cli w of
         GhNotFound \<Rightarrow> token_not_found
       | GhExited rc out \<Rightarrow> (if rc = 0 then return_io (strip out) else token_not_found)
       | GhOtherError \<Rightarrow> raise_io OSError)"

definition get_github_token :: "world \<Rightarrow> string io" where
  "get_github_token w =
     (case env_token w of
        None \<Rightarrow> token_from_cli w
      | Some token \<Rightarrow> (if token \<noteq> [] then return_io token else token_from_cli w))"

definition create_branch_configs :: "(string \<times> BranchProtectionConfig) list" where
  "create_branch_configs =
     [(''main'',
       \<lparr>name = ''main'',
        required_status_checks =
          [''Test (ubuntu-latest, stable)'', ''Test (windows-latest, stable)'',
           ''Test (macos-latest, stable)'', ''Coverage'', ''Security Audit'',
           ''CodeQL / Analyze (rust)'', ''CodeQL / Analyze (javascript)''],
        required_approving_review_count = 1,
        dismiss_stale_reviews = True,
        require_code_owner_reviews = True,
        require_last_push_approval = True,
        required_linear_history = True,
        allow_force_pushes = False,
        allow_deletions = False,
        required_conversation_resolution = True,
        strict_status_checks = True\<rparr>),
      (''develop'',
       \<lparr>name = ''develop'',
        required_status_checks =
          [''Test (ubuntu-latest, stable)'', ''Coverage'', ''Security Audit''],
        required_approving_review_count = 1,
        dismiss_stale_reviews = True,
        require_code_owner_reviews = False,
        require_last_push_approval = False,
        required_linear_history = False,
        allow_force_pushes = False,
        allow_deletions = False,
        required_conversation_resolution = True,
        strict_status_checks = True\<rparr>)]"

text \<open>\<open>x[:10]\<close> and \<open>len(x)\<close> on a decoded JSON value.\<close>

fun py_slice10 :: "json \<Rightarrow> exn + json" where
  "py_slice10 (JStr s) = Inr (JStr (take 10 s))"
| "py_slice10 (JArr xs) = Inr (JArr (take 10 xs))"
| "py_slice10 _ = Inl TypeError"

fun py_len :: "json \<Rightarrow> exn + int" where
  "py_len (JStr s) = Inr (int (length s))"
| "py_len (JArr xs) = Inr (int (length xs))"
| "py_len (JObj kvs) = Inr (int (length kvs))"
| "py_len _ = Inl TypeError"

definition print_repository_summary :: "world \<Rightarrow> unit io" where
  "print_repository_summary w =
     bind_io (prints [[Txt ''Repository Information:'']]) (\<lambda>_.
     bind_io (get_repository_info w) (\<lambda>repo_info.
     bind_io (lift_exn (py_item repo_info ''full_name'')) (\<lambda>v.
     bind_io (prints [[Txt ''   Name: '', Val v]]) (\<lambda>_.
     bind_io (lift_exn (py_item repo_info ''stargazers_count'')) (\<lambda>v.
     bind_io (prints [[Txt ''   Stars: '', Val v]]) (\<lambda>_.
     bind_io (lift_exn (py_item repo_info ''forks_count'')) (\<lambda>v.
     bind_io (prints [[Txt ''   Forks: '', Val v]]) (\<lambda>_.
     bind_io (lift_exn (py_item repo_info ''default_branch'')) (\<lambda>v.
     bind_io (prints [[Txt ''   Default branch: '', Val v]]) (\<lambda>_.
     bind_io (lift_exn (py_item repo_info ''private'')) (\<lambda>v.
     bind_io (prints [[Txt ''   Private: '', Val v]]) (\<lambda>_.
     bind_io (lift_exn (py_item repo_info ''created_at'')) (\<lambda>v.
     bind_io (lift_exn (py_slice10 v)) (\<lambda>v'.
     prints [[Txt ''   Created: '', Val v'], []]))))))))))))))"

definition verify_branch :: "world \<Rightarrow> string \<Rightarrow> unit io" where
  "verify_branch w branch =
     bind_io (get_branch_protection w branch) (\<lambda>protection.
       if truthy protection
       then
         bind_io (lift_exn (py_get protection ''required_status_checks'' (JObj []))) (\<lambda>rsc.
         bind_io (lift_exn (py_get rsc ''checks'' (JArr []))) (\<lambda>checks.
         bind_io (lift_exn (py_len checks)) (\<lambda>checks_count.
         bind_io (lift_exn (py_get protection ''required_pull_request_reviews'' (JObj []))) (\<lambda>rpr.
         bind_io (lift_exn (py_get rpr ''required_approving_review_count'' (JNum 0))) (\<lambda>review_count.
         bind_io (lift_exn (py_get protection ''required_linear_history'' (JBool False))) (\<lambda>linear_history.
         prints [[Txt ''   '', Txt branch, Txt '': Protected''],
                 [Txt ''      - Status checks: '', Num checks_count],
                 [Txt ''      - Required reviews: '', Val review_count],
                 [Txt ''      - Linear history: '',
                  Txt (if truthy linear_history then ''Yes'' else ''No'')]]))))))
       else prints [[Txt ''   '', Txt branch, Txt '': Not protected'']])"

fun verify_loop :: "world \<Rightarrow> string list \<Rightarrow> unit io" where
  "verify_loop w [] = return_io ()"
| "verify_loop w (branch # rest) = bind_io (verify_branch w branch) (\<lambda>_. verify_loop w rest)"

definition verify_protection_status :: "world \<Rightarrow> string list \<Rightarrow> unit io" where
  "verify_protection_status w branches =
     bind_io (prints [[Txt ''Current Protection Status:'']]) (\<lambda>_.
     bind_io (verify_loop w branches) (\<lambda>_.
     prints [[]]))"

text \<open>\<open>str.lower\<close>, on the letters that can make \<open>y\<close> or \<open>yes\<close>: the ASCII capitals.\<close>

definition lower_char :: "char \<Rightarrow> char" where
  "lower_char c =
     (case map_of (zip ''ABCDEFGHIJKLMNOPQRSTUVWXYZ'' ''abcdefghijklmnopqrstuvwxyz'') c of
        None \<Rightarrow> c
      | Some l \<Rightarrow> l)"

definition lower :: "string \<Rightarrow> string" where
  "lower s = map lower_char s"

text \<open>
  \<open>main\<close>, in three parts. First everything up to the prompt: the banner, the token
  (with the \<open>try\<close> around it), the client, the summary and the first verification.
\<close>

definition authenticate :: "world \<Rightarrow> string io" where
  "authenticate w t =
     (case get_github_token w t of
        (Return token, t') \<Rightarrow> (Return token, t' @ [Print [Txt ''GitHub authentication verified'']])
      | (Exit c, t') \<Rightarrow> (Exit c, t')
      | (Raise e, t') \<Rightarrow>
          (if e = KeyboardInterrupt then (Raise e, t')
           else (Exit 1, t' @ [Print [Txt ''Authentication failed: '', Exc e]])))"

definition branches :: "string list" where
  "branches = map fst create_branch_configs"

definition before_prompt :: "world \<Rightarrow> unit io" where
  "before_prompt w =
     bind_io (prints [[Txt (replicate 60 CHR ''='')],
                      [Txt ''Code-Guardian GitHub Branch Protection Setup''],
                      [Txt (replicate 60 CHR ''='')],
                      []]) (\<lambda>_.
     bind_io (authenticate w) (\<lambda>token.
     bind_io (print_repository_summary w) (\<lambda>_.
     verify_protection_status w branches)))"

text \<open>The prompt: anything but \<open>y\<close> or \<open>yes\<close>, in any case of letters, ends the run.\<close>

definition confirm :: "world \<Rightarrow> unit io" where
  "confirm w =
     bind_io (emit (Prompt ''Do you want to proceed with setting up branch protection rules? (y/N): '')) (\<lambda>_.
       case user_input w of
         InputEOF \<Rightarrow> raise_io EOFError
       | InputInterrupt \<Rightarrow> raise_io KeyboardInterrupt
       | Typed r \<Rightarrow>
           (if lower r \<notin> set [''y'', ''yes'']
            then bind_io (prints [[Txt ''Setup cancelled by user.'']]) (\<lambda>_. exit_io 0)
            else return_io ()))"

text \<open>
  The rest: the rules (\<open>apply_loop\<close>), then the two security features, the second
  verification and the summary (\<open>finish\<close>).
\<close>

fun apply_loop :: "world \<Rightarrow> (string \<times> BranchProtectionConfig) list \<Rightarrow> int \<Rightarrow> int io" where
  "apply_loop w [] success_count = return_io success_count"
| "apply_loop w ((branch, config) # rest) success_count =
     bind_io (set_branch_protection w branch config) (\<lambda>ok.
       if ok
       then bind_io (emit (Sleep 1)) (\<lambda>_.
            bind_io (prints [[]]) (\<lambda>_. apply_loop w rest (success_count + 1)))
       else bind_io (prints [[]]) (\<lambda>_. apply_loop w rest success_count))"

definition finish :: "world \<Rightarrow> int \<Rightarrow> unit io" where
  "finish w success_count =
     bind_io (prints [[Txt ''Enabling security features...'']]) (\<lambda>_.
     bind_io (enable_vulnerability_alerts w) (\<lambda>alerts_on.
     bind_io (prints [if alerts_on then [Txt ''Vulnerability alerts enabled'']
                      else [Txt ''Could not enable vulnerability alerts'']]) (\<lambda>_.
     bind_io (enable_automated_security_fixes w) (\<lambda>fixes_on.
     bind_io (prints [if fixes_on then [Txt ''Automated security fixes enabled'']
                      else [Txt ''Could not enable automated security fixes''],
                      [],
                      [Txt ''Final verification...'']]) (\<lambda>_.
     bind_io (verify_protection_status w branches) (\<lambda>_.
     bind_io (prints [[Txt ''Setup Summary:''],
                      [Txt ''   Successfully configured: '', Num success_count, Txt ''/'',
                       Num (int (length create_branch_configs)), Txt '' branches''],
                      [Txt ''   Security features: Enabled''],
                      []]) (\<lambda>_.
     bind_io (prints (if success_count = int (length create_branch_configs)
                      then [[Txt ''Branch protection setup completed successfully!''],
                            [],
                            [Txt ''Next steps:''],
                            [Txt ''1. Verify settings in GitHub web interface''],
                            [Txt ''2. Test by creating a PR to main branch''],
                            [Txt ''3. Configure organization-level settings if needed''],
                            [Txt ''4. Import repository ruleset for additional protection'']]
                      else [[Txt ''Some configurations may have failed. Please check manually.'']])) (\<lambda>_.
     prints [[], [Txt ''Your repository now has enterprise-grade protection!'']]))))))))"

definition apply_changes :: "world \<Rightarrow> unit io" where
  "apply_changes w =
     bind_io (prints [[], [Txt ''Starting branch protection setup...''], []]) (\<lambda>_.
     bind_io (apply_loop w create_branch_configs 0) (\<lambda>success_count.
     finish w success_count))"

definition main :: "world \<Rightarrow> unit io" where
  "main w =
     bind_io (before_prompt w) (\<lambda>_.
     bind_io (confirm w) (\<lambda>_.
     apply_changes w))"

text \<open>
  The \<open>__main__\<close> block: the exit code of the process and everything it did. A return
  from \<open>main\<close> is exit code 0; \<open>sys.exit\<close> passes both handlers.
\<close>

definition script :: "world \<Rightarrow> int \<times> event list" where
  "script w =
     (case main w [] of
        (Return u, t) \<Rightarrow> (0, t)
      | (Exit c, t) \<Rightarrow> (c, t)
      | (Raise e, t) \<Rightarrow>
          (if e = KeyboardInterrupt then (1, t @ [Print [Txt ''Setup cancelled by user.'']])
           else (1, t @ [Print [Txt ''Unexpected error: '', Exc e]])))"

text \<open>The two fatal setup errors of the specification, as the world shows them.\<close>

definition no_token :: "world \<Rightarrow> bool" where
  "no_token w =
     ((env_token w = None \<or> env_token w = Some [])
      \<and> (case gh_cli w of GhNotFound \<Rightarrow> True | GhExited rc out \<Rightarrow> rc \<noteq> 0 | GhOtherError \<Rightarrow> True))"

definition repository_info_refused :: "world \<Rightarrow> bool" where
  "repository_info_refused w =
     (case http w 0 of Responds r \<Rightarrow> status_code r \<noteq> 200 | RequestException msg \<Rightarrow> False)"

text \<open>The user typed \<open>y\<close> or \<open>yes\<close>, in any case of letters.\<close>

definition confirmed :: "world \<Rightarrow> bool" where
  "confirmed w = (case user_input w of Typed r \<Rightarrow> lower r \<in> set [''y'', ''yes''] | _ \<Rightarrow> False)"

text \<open>Some request that the trace holds failed in transport.\<close>

definition transport_failed :: "world \<Rightarrow> event list \<Rightarrow> bool" where
  "transport_failed w t =
     (\<exists>k < length (filter is_request t). \<exists>msg. http w k = RequestException msg)"

text \<open>
  Invariants of a run. \<open>io_inv I X R m\<close>: started in a trace that satisfies \<open>I\<close>, the
  computation \<open>m\<close> returns in a trace that satisfies \<open>I\<close>, or exits with a code and a
  trace that satisfy \<open>X\<close>, or raises with an exception and a trace that satisfy \<open>R\<close>.
  \<open>sound_inv\<close> is what the three must satisfy for the steps of the script to keep
  them, when the requests are of the methods \<open>okm\<close>.
\<close>

definition io_inv :: "(event list \<Rightarrow> bool) \<Rightarrow> (int \<Rightarrow> event list \<Rightarrow> bool)
    \<Rightarrow> (exn \<Rightarrow> event list \<Rightarrow> bool) \<Rightarrow> 'a io \<Rightarrow> bool" where
  "io_inv I X R m =
     (\<forall>t. I t \<longrightarrow>
        (case m t of
           (Return x, t') \<Rightarrow> I t'
         | (Exit c, t') \<Rightarrow> X c t'
         | (Raise e, t') \<Rightarrow> R e t'))"

definition sound_inv :: "world \<Rightarrow> (http_method \<Rightarrow> bool) \<Rightarrow> (event list \<Rightarrow> bool)
    \<Rightarrow> (int \<Rightarrow> event list \<Rightarrow> bool) \<Rightarrow> (exn \<Rightarrow> event list \<Rightarrow> bool) \<Rightarrow> bool" where
  "sound_inv w okm I X R =
     ((\<forall>t es. I t \<and> filter is_request es = [] \<longrightarrow> I (t @ es))
      \<and> (\<forall>t e. I t \<longrightarrow> R e t)
      \<and> (\<forall>t c. I t \<longrightarrow> X c t)
      \<and> (\<forall>t r m ep b. I t \<and> okm m \<and> http w (length (filter is_request t)) = Responds r
            \<longrightarrow> I (t @ [Request m ep b]))
      \<and> (\<forall>t msg m ep b l. I t \<and> okm m
              \<and> http w (length (filter is_request t)) = RequestException msg
            \<longrightarrow> X 1 (t @ [Request m ep b, Print l])))"

text \<open>
  A world for concrete runs: a token in the environment; the repository answers; both
  branches are unprotected at first (404); the two rules are accepted (200), the two
  security features too (204); the second verification finds both branches protected.
  The answer typed at the prompt is left open.
\<close>

definition example_repository :: json where
  "example_repository =
     JObj [(''full_name'', JStr ''d-oit/code-guardian''),
           (''stargazers_count'', JNum 3),
           (''forks_count'', JNum 1),
           (''default_branch'', JStr ''main''),
           (''private'', JBool False),
           (''created_at'', JStr ''2024-05-01T08:00:00Z'')]"

definition example_http :: "nat \<Rightarrow> http_result" where
  "example_http k =
     (if k = 0 then Responds \<lparr>status_code = 200, json_body = Some example_repository, text_body = []\<rparr>
      else if k < 3 then Responds \<lparr>status_code = 404, json_body = None, text_body = ''Not Found''\<rparr>
      else if k < 5 then Responds \<lparr>status_code = 200, json_body = Some (JObj []), text_body = []\<rparr>
      else if k < 7 then Responds \<lparr>status_code = 204, json_body = None, text_body = []\<rparr>
      else Responds \<lparr>status_code = 200,
                     json_body = Some (JObj [(''required_linear_history'', JBool True)]),
                     text_body = []\<rparr>)"

definition example_world :: "string \<Rightarrow> world" where
  "example_world answer =
     \<lparr>env_token = Some ''ghp_example'', gh_cli = GhNotFound, http = example_http,
      user_input = Typed answer\<rparr>"

section \<open>Properties of the dashboard server\<close>

lemmas parse_simps = replace_Z_def fromisoformat_basic_def parse_offset_def digit_of_def
  days_in_month_def is_leap_def wall_clock_def days_before_year_def days_before_month_def

subsection \<open>Status classes\<close>

text \<open>
  C1, as the page script has it. Each status is one of two classes and depends on
  nothing but the value and a fixed threshold: \<open>build_time\<close> is critical exactly above
  180 (180 is good, 181 is critical), \<open>test_time\<close> exactly above 120, \<open>memory_mb\<close>
  exactly above 200, and \<open>coverage\<close> exactly below 82, so that a coverage of 82 is
  good, as 82.1 is.
\<close>

theorem status_thresholds:
  "(buildStatus m = ''critical'') = (or_zero (build_time m) > 180)
   \<and> (buildStatus m = ''good'') = (or_zero (build_time m) \<le> 180)
   \<and> (testStatus m = ''critical'') = (or_zero (test_time m) > 120)
   \<and> (testStatus m = ''good'') = (or_zero (test_time m) \<le> 120)
   \<and> (memoryStatus m = ''critical'') = (or_zero (memory_mb m) > 200)
   \<and> (memoryStatus m = ''good'') = (or_zero (memory_mb m) \<le> 200)
   \<and> (coverageStatus m = ''critical'') = (or_zero (coverage m) < 82)
   \<and> (coverageStatus m = ''good'') = (82 \<le> or_zero (coverage m))
   \<and> getStatusClass ''build_time'' 180 180 ''gt'' = ''good''
   \<and> getStatusClass ''build_time'' 181 180 ''gt'' = ''critical''
   \<and> getStatusClass ''coverage'' 82 82 ''lt'' = ''good''
   \<and> getStatusClass ''coverage'' 82.1 82 ''lt'' = ''good''"
  by (simp add: buildStatus_def testStatus_def memoryStatus_def coverageStatus_def
      getStatusClass_def not_less)

text \<open>
  C1 as it is stated asks for a coverage of 82 to be critical. A snapshot whose
  coverage is 82 gets the class good.
\<close>

theorem coverage_boundary_counterexample:
  "coverageStatus \<lparr>build_time = None, test_time = None, coverage = Some 82, memory_mb = None\<rparr>
     = ''good''
   \<and> coverageStatus \<lparr>build_time = None, test_time = None, coverage = Some 82, memory_mb = None\<rparr>
     \<noteq> ''critical''"
  by (simp add: coverageStatus_def getStatusClass_def or_zero_def)

subsection \<open>Alerts\<close>

text \<open>The route never returns more than ten alerts.\<close>

lemma read_alerts_at_most_10: "length (read_alerts text) \<le> 10"
proof -
  have "length (filter (\<lambda>line. strip line \<noteq> []) (last10 (readlines text)))
          \<le> length (last10 (readlines text))"
    by (rule length_filter_le)
  also have "\<dots> \<le> 10"
    by (simp add: last10_def)
  finally show ?thesis
    by (simp add: read_alerts_def)
qed

text \<open>
  C2 at a log of ten alerts followed by one empty line. The last ten non-empty lines
  are all ten alerts; the route takes the last ten lines first and drops the empty one
  after, and returns nine.
\<close>

theorem alerts_after_blank_line:
  "read_alerts ''a\<newline>b\<newline>c\<newline>d\<newline>e\<newline>f\<newline>g\<newline>h\<newline>i\<newline>j\<newline>\<newline>''
     = [''b'', ''c'', ''d'', ''e'', ''f'', ''g'', ''h'', ''i'', ''j'']
   \<and> last_nonempty_lines_spec
       ''a\<newline>b\<newline>c\<newline>d\<newline>e\<newline>f\<newline>g\<newline>h\<newline>i\<newline>j\<newline>\<newline>''
     = [''a'', ''b'', ''c'', ''d'', ''e'', ''f'', ''g'', ''h'', ''i'', ''j'']"
  by (simp add: read_alerts_def last_nonempty_lines_spec_def readlines_def last10_def
      strip_def isspace_def)

subsection \<open>Trends\<close>

lemma trend_point_naive:
  "naive_timestamp fi e \<Longrightarrow>
   trend_point fi (cutoff_time now hours) metric e
     = trend_point_spec fi (since_cutoff utcoffset now hours) metric e"
  by (cases e)
     (auto simp: trend_point_def trend_try_def trend_point_spec_def naive_timestamp_def
        cutoff_time_def since_cutoff_def
        split: option.splits json.splits datetime.splits sum.splits)

lemma trend_loop_naive:
  "(\<forall>e \<in> set es. naive_timestamp fi e) \<Longrightarrow>
   trend_loop fi (cutoff_time now hours) metric es
     = trend_spec fi (since_cutoff utcoffset now hours) metric es"
proof (induction es)
  case Nil
  then show ?case by (simp add: trend_spec_def)
next
  case (Cons e es)
  then have "trend_point fi (cutoff_time now hours) metric e
     = trend_point_spec fi (since_cutoff utcoffset now hours) metric e"
    by (simp add: trend_point_naive)
  with Cons show ?case
    by (simp add: trend_spec_def split: option.splits)
qed

text \<open>
  C3, amended. For every history whose timestamps carry no UTC offset, and every
  metric, the trend is, in history order, the \<open>{timestamp, value}\<close> projection of
  exactly the entries whose timestamp parses and is not earlier than 24 hours before
  call time; there is no upper end, so entries dated after call time are in it.
  Entries whose timestamp is absent, unparsable or earlier are left out, and no
  exception escapes, whatever the entries hold.
\<close>

theorem trend_since_cutoff:
  assumes "map_of kvs ''metrics_history'' = Some (JArr entries)"
    and "\<forall>e \<in> set entries. naive_timestamp fromisoformat e"
  shows "get_trend_data fromisoformat now (JObj kvs) metric 24
           = Inr (trend_spec fromisoformat (since_cutoff utcoffset now 24) metric entries)"
  using assms by (simp add: get_trend_data_def trend_loop_naive)

theorem trend_since_cutoff_witness:
  "get_trend_data fromisoformat_basic (wall_clock 2026 11 4 12 0 0)
     (JObj [(''metrics_history'',
        JArr [JObj [(''timestamp'', JStr ''2026-11-03T11:59:59''), (''build_time'', JNum 80)],
              JObj [(''timestamp'', JStr ''2026-11-03T12:00:00''), (''build_time'', JNum 85)],
              JObj [(''timestamp'', JStr ''yesterday''), (''build_time'', JNum 90)],
              JObj [(''build_time'', JNum 91)],
              JNum 7,
              JObj [(''timestamp'', JStr ''2026-11-04T11:00:00''), (''test_time'', JNum 60)]])])
     ''build_time'' 24
   = Inr [JObj [(''timestamp'', JStr ''2026-11-03T12:00:00''), (''value'', JNum 85)],
          JObj [(''timestamp'', JStr ''2026-11-04T11:00:00''), (''value'', JNum 0)]]"
proof -
  let ?entries =
    "[JObj [(''timestamp'', JStr ''2026-11-03T11:59:59''), (''build_time'', JNum 80)],
      JObj [(''timestamp'', JStr ''2026-11-03T12:00:00''), (''build_time'', JNum 85)],
      JObj [(''timestamp'', JStr ''yesterday''), (''build_time'', JNum 90)],
      JObj [(''build_time'', JNum 91)],
      JNum 7,
      JObj [(''timestamp'', JStr ''2026-11-04T11:00:00''), (''test_time'', JNum 60)]]"
  have h1: "map_of [(''metrics_history'', JArr ?entries)] ''metrics_history''
              = Some (JArr ?entries)"
    by simp
  have h2: "\<forall>e \<in> set ?entries. naive_timestamp fromisoformat_basic e"
    by (simp add: naive_timestamp_def parse_simps)
  have "trend_spec fromisoformat_basic (since_cutoff 0 (wall_clock 2026 11 4 12 0 0) 24)
          ''build_time'' ?entries
        = [JObj [(''timestamp'', JStr ''2026-11-03T12:00:00''), (''value'', JNum 85)],
           JObj [(''timestamp'', JStr ''2026-11-04T11:00:00''), (''value'', JNum 0)]]"
    by (simp add: trend_spec_def trend_point_spec_def since_cutoff_def parse_simps)
  with trend_since_cutoff [OF h1 h2, of "wall_clock 2026 11 4 12 0 0" "''build_time''" 0]
  show ?thesis by simp
qed

text \<open>
  C3 as it is stated, at noon of 2026-11-04 on a server whose clock is UTC. The
  history holds an entry dated in 2027 and an entry stamped one hour before the call,
  with the suffix \<open>Z\<close>. The claim's trend is the second entry alone; the code returns
  the first entry alone: it has no upper end of the window, and it orders the aware
  timestamp against the naive \<open>datetime.now()\<close>, which raises, and skips the entry.
\<close>

theorem trend_window_counterexample:
  "get_trend_data fromisoformat_basic (wall_clock 2026 11 4 12 0 0)
     (JObj [(''metrics_history'',
        JArr [JObj [(''timestamp'', JStr ''2027-01-01T00:00:00''), (''build_time'', JNum 95)],
              JObj [(''timestamp'', JStr ''2026-11-04T11:00:00Z''), (''build_time'', JNum 90)]])])
     ''build_time'' 24
   = Inr [JObj [(''timestamp'', JStr ''2027-01-01T00:00:00''), (''value'', JNum 95)]]
   \<and> trend_spec fromisoformat_basic (in_trailing_window 0 (wall_clock 2026 11 4 12 0 0) 24)
       ''build_time''
       [JObj [(''timestamp'', JStr ''2027-01-01T00:00:00''), (''build_time'', JNum 95)],
        JObj [(''timestamp'', JStr ''2026-11-04T11:00:00Z''), (''build_time'', JNum 90)]]
   = [JObj [(''timestamp'', JStr ''2026-11-04T11:00:00Z''), (''value'', JNum 90)]]"
  by (simp add: get_trend_data_def trend_point_def trend_try_def cutoff_time_def
      trend_spec_def trend_point_spec_def in_trailing_window_def parse_simps)

text \<open>
  An entry without the metric, whose timestamp has no UTC offset and is not earlier
  than the cutoff, gives a point of value 0 at its place in the trend.
\<close>

lemma missing_metric_defaults_to_zero:
  assumes "map_of kvs ''timestamp'' = Some (JStr s)"
    and "fromisoformat (replace_Z s) = Some (Naive a)"
    and "now - hours * 3600000000 \<le> a"
    and "map_of kvs metric = None"
  shows "trend_loop fromisoformat (cutoff_time now hours) metric (before @ JObj kvs # after)
     = trend_loop fromisoformat (cutoff_time now hours) metric before
       @ JObj [(''timestamp'', JStr s), (''value'', JNum 0)]
       # trend_loop fromisoformat (cutoff_time now hours) metric after"
proof -
  have "trend_point fromisoformat (cutoff_time now hours) metric (JObj kvs)
          = Some (JObj [(''timestamp'', JStr s), (''value'', JNum 0)])"
    using assms by (simp add: trend_point_def trend_try_def cutoff_time_def)
  then show ?thesis
    by (induction before) (simp_all split: option.splits)
qed

text \<open>
  C10 at noon of 2026-11-04 on a server whose clock is UTC, for an entry stamped one
  hour before, with the suffix \<open>Z\<close>, and without the metric. The claim's trend holds
  the entry with value 0; the code's trend is empty.
\<close>

theorem missing_metric_with_offset:
  "get_trend_data fromisoformat_basic (wall_clock 2026 11 4 12 0 0)
     (JObj [(''metrics_history'', JArr [JObj [(''timestamp'', JStr ''2026-11-04T11:00:00Z'')]])])
     ''build_time'' 24
   = Inr []
   \<and> trend_spec fromisoformat_basic (in_trailing_window 0 (wall_clock 2026 11 4 12 0 0) 24)
       ''build_time'' [JObj [(''timestamp'', JStr ''2026-11-04T11:00:00Z'')]]
   = [JObj [(''timestamp'', JStr ''2026-11-04T11:00:00Z''), (''value'', JNum 0)]]"
  by (simp add: get_trend_data_def trend_point_def trend_try_def cutoff_time_def
      trend_spec_def trend_point_spec_def in_trailing_window_def parse_simps)

subsection \<open>The metrics route without a state file\<close>

lemma load_data_default:
  "state_fails_to_load json_load st \<Longrightarrow> load_data json_load st = (default_data, st)"
  by (auto simp: state_fails_to_load_def load_data_def open_read_def path_exists_def
      split: option.splits node.splits)

lemma get_metrics_default:
  "get_metrics fromisoformat n1 n2 n3 n4 default_data st
     = (Inr (JObj [(''latest'', JObj []),
                   (''trends'', JObj [(''build_time'', JArr []), (''test_time'', JArr []),
                                      (''coverage'', JArr []), (''memory_mb'', JArr [])]),
                   (''alerts'', JArr (map JStr (recent_alerts st))),
                   (''status'', JNum 0)]), st)"
  by (simp add: get_metrics_def default_data_def get_latest_metrics_def get_trend_data_def)

text \<open>
  C4. When the state file is absent, or cannot be read, or does not decode, the
  metrics route, after the load at start or after a refresh tick, answers with a body
  and not with an exception: the latest snapshot is the empty object, the four trends
  are empty lists and the status is 0.
\<close>

theorem metrics_without_state:
  assumes "state_fails_to_load json_load (disk srv)"
  shows "fst (server_step json_load fromisoformat monitor (Handle (GetMetrics n1 n2 n3 n4))
                (snd (server_step json_load fromisoformat monitor RefreshTick srv)))
           = Body (JObj [(''latest'', JObj []),
                   (''trends'', JObj [(''build_time'', JArr []), (''test_time'', JArr []),
                                      (''coverage'', JArr []), (''memory_mb'', JArr [])]),
                   (''alerts'', JArr (map JStr (recent_alerts (disk srv)))),
                   (''status'', JNum 0)])
       \<and> fst (server_step json_load fromisoformat monitor (Handle (GetMetrics n1 n2 n3 n4))
                (initial_server json_load (disk srv)))
           = Body (JObj [(''latest'', JObj []),
                   (''trends'', JObj [(''build_time'', JArr []), (''test_time'', JArr []),
                                      (''coverage'', JArr []), (''memory_mb'', JArr [])]),
                   (''alerts'', JArr (map JStr (recent_alerts (disk srv)))),
                   (''status'', JNum 0)])"
  using load_data_default [OF assms]
  by (simp add: initial_server_def get_metrics_default reply_of_def)

theorem metrics_without_state_witness:
  "fst (server_step (\<lambda>text. None) fromisoformat_basic (\<lambda>st. (CannotStart [], st))
          (Handle (GetMetrics 0 0 0 0))
          (snd (server_step (\<lambda>text. None) fromisoformat_basic (\<lambda>st. (CannotStart [], st))
             RefreshTick
             \<lparr>loaded = JObj [(''metrics_history'', JArr [JNull])],
              disk = \<lparr>files = [STATE_FILE \<mapsto> File ''{ metrics_history: [''],
                      dirs = {}\<rparr>\<rparr>)))
     = Body (JObj [(''latest'', JObj []),
                   (''trends'', JObj [(''build_time'', JArr []), (''test_time'', JArr []),
                                      (''coverage'', JArr []), (''memory_mb'', JArr [])]),
                   (''alerts'', JArr []),
                   (''status'', JNum 0)])"
proof -
  have h: "state_fails_to_load (\<lambda>text. None)
             (disk \<lparr>loaded = JObj [(''metrics_history'', JArr [JNull])],
                    disk = \<lparr>files = [STATE_FILE \<mapsto> File ''{ metrics_history: [''],
                            dirs = {}\<rparr>\<rparr>)"
    by (simp add: state_fails_to_load_def)
  show ?thesis
    using metrics_without_state [OF h, of fromisoformat_basic "\<lambda>st. (CannotStart [], st)" 0 0 0 0]
    by (simp add: recent_alerts_def path_exists_def STATE_FILE_def ALERT_FILE_def
        PERFORMANCE_DIR_def)
qed

subsection \<open>The on-demand check\<close>

text \<open>
  C5, amended. A script that ends within 300 seconds and whose captured output
  decodes as text gives the success message when its exit code is 0, and otherwise
  the failure message, which contains its standard error; one that runs longer, or
  for ever, gives the timeout message. The timeout message is given in no other case,
  and the success message in no other case. A script that cannot be started, or whose
  captured output does not decode, gives a fourth message, \<open>Error running check\<close>
  followed by the text of the exception. Whatever the script does, the route returns
  a message.
\<close>

theorem run_check_by_outcome:
  "(d \<le> 300 \<longrightarrow> run_check (Runs (Some d) 0 (Decoded out) (Decoded err))
        = Inr (jsonify_message ''Performance check completed successfully!''))
   \<and> (d \<le> 300 \<and> rc \<noteq> 0 \<longrightarrow>
        run_check (Runs (Some d) rc (Decoded out) (Decoded err))
          = Inr (jsonify_message (''Performance check failed: '' @ err))
        \<and> sublist err (''Performance check failed: '' @ err))
   \<and> (300 < d \<longrightarrow> run_check (Runs (Some d) rc cout cerr)
        = Inr (jsonify_message ''Performance check timed out''))
   \<and> run_check (Runs None rc cout cerr) = Inr (jsonify_message ''Performance check timed out'')
   \<and> (d \<le> 300 \<longrightarrow> run_check (Runs (Some d) rc (Undecodable msg) cerr)
        = Inr (jsonify_message (''Error running check: '' @ msg)))
   \<and> (d \<le> 300 \<longrightarrow> run_check (Runs (Some d) rc (Decoded out) (Undecodable msg))
        = Inr (jsonify_message (''Error running check: '' @ msg)))
   \<and> run_check (CannotStart msg) = Inr (jsonify_message (''Error running check: '' @ msg))
   \<and> (run_check p = Inr (jsonify_message ''Performance check timed out'')
        \<longleftrightarrow> subprocess_run p 300 = TimeoutExpired)
   \<and> (run_check p = Inr (jsonify_message ''Performance check completed successfully!'')
        \<longleftrightarrow> (\<exists>out' err'. subprocess_run p 300 = Completed 0 out' err'))
   \<and> (\<exists>m. run_check p = Inr (jsonify_message m))"
proof -
  have "sublist err (''Performance check failed: '' @ err)"
    using sublist_appendI [of err "''Performance check failed: ''" "[]"] by simp
  moreover have "run_check p = Inr (jsonify_message ''Performance check timed out'')
        \<longleftrightarrow> subprocess_run p 300 = TimeoutExpired"
    by (cases "subprocess_run p 300") (simp_all add: run_check_def jsonify_message_def)
  moreover have "run_check p = Inr (jsonify_message ''Performance check completed successfully!'')
        \<longleftrightarrow> (\<exists>out' err'. subprocess_run p 300 = Completed 0 out' err')"
    by (cases "subprocess_run p 300") (simp_all add: run_check_def jsonify_message_def)
  moreover have "\<exists>m. run_check p = Inr (jsonify_message m)"
    by (cases "subprocess_run p 300") (auto simp: run_check_def)
  ultimately show ?thesis
    by (simp add: run_check_def)
qed

theorem run_check_by_outcome_witness:
  "run_check (Runs (Some 12) 0 (Decoded ''ok'') (Decoded []))
     = Inr (jsonify_message ''Performance check completed successfully!'')
   \<and> run_check (Runs (Some 12) 2 (Decoded []) (Decoded ''boom''))
     = Inr (jsonify_message ''Performance check failed: boom'')
   \<and> sublist ''boom'' ''Performance check failed: boom''
   \<and> run_check (Runs (Some 301) 0 (Decoded []) (Decoded []))
     = Inr (jsonify_message ''Performance check timed out'')
   \<and> run_check (Runs (Some 12) 0 (Undecodable ''invalid start byte'') (Decoded []))
     = Inr (jsonify_message ''Error running check: invalid start byte'')
   \<and> run_check (Runs (Some 12) 2 (Decoded []) (Undecodable ''invalid start byte''))
     = Inr (jsonify_message ''Error running check: invalid start byte'')"
  using run_check_by_outcome [where d = 12 and out = "''ok''" and err = "[]" and rc = 2
      and cout = "Decoded []" and cerr = "Decoded []" and msg = "''invalid start byte''"
      and p = "CannotStart []"]
    run_check_by_outcome [where d = 12 and out = "[]" and err = "''boom''" and rc = 2
      and cout = "Decoded []" and cerr = "Decoded []" and msg = "''invalid start byte''"
      and p = "CannotStart []"]
    run_check_by_outcome [where d = 301 and out = "[]" and err = "[]" and rc = 0
      and cout = "Decoded []" and cerr = "Decoded []" and msg = "''invalid start byte''"
      and p = "CannotStart []"]
    run_check_by_outcome [where d = 12 and out = "[]" and err = "[]" and rc = 0
      and cout = "Decoded []" and cerr = "Decoded []" and msg = "''invalid start byte''"
      and p = "CannotStart []"]
  by simp

text \<open>
  C5 as it is stated gives the failure message, with the captured standard error in
  it, for every exit code other than 0. This script ends in time with exit code 2 and
  a standard error that does not decode as text: the decoding raises, the last handler
  of the route catches it, and the message is the fourth one, not the failure message.
\<close>

theorem undecodable_stderr_counterexample:
  "run_check (Runs (Some 12) 2 (Decoded []) (Undecodable ''invalid start byte''))
     = Inr (jsonify_message ''Error running check: invalid start byte'')
   \<and> (\<forall>err. run_check (Runs (Some 12) 2 (Decoded []) (Undecodable ''invalid start byte''))
          \<noteq> Inr (jsonify_message (''Performance check failed: '' @ err)))"
  by (simp add: run_check_def jsonify_message_def)

subsection \<open>The state file\<close>

lemma load_data_store: "snd (load_data jl st) = st"
  by (simp add: load_data_def split: sum.splits option.splits)

lemma get_metrics_store: "snd (get_metrics fi n1 n2 n3 n4 d st) = st"
  by (simp add: get_metrics_def split: sum.splits)

lemma startup_files: "files (snd (startup st)) = files st"
  by (simp add: startup_def mkdir_exist_ok_def split: sum.splits if_splits)

lemma server_step_files:
  "a \<noteq> Handle PostRunCheck \<Longrightarrow>
   files (disk (snd (server_step jl fi mon a srv))) = files (disk srv)"
proof (cases a)
  case Startup
  then show ?thesis
    using startup_files [of "disk srv"] by (simp add: split_beta)
next
  case RefreshTick
  then show ?thesis
    using load_data_store [of jl "disk srv"] by (simp add: split_beta)
next
  case (Handle rq)
  assume "a \<noteq> Handle PostRunCheck"
  with Handle show ?thesis
    using get_metrics_store [of fi _ _ _ _ "loaded srv" "disk srv"]
    by (cases rq) (simp_all add: split_beta)
qed

lemma server_run_files:
  "Handle PostRunCheck \<notin> set as \<Longrightarrow>
   files (disk (server_run jl fi mon as srv)) = files (disk srv)"
proof (induction as arbitrary: srv)
  case Nil
  then show ?case by simp
next
  case (Cons a as)
  then have "a \<noteq> Handle PostRunCheck" and "Handle PostRunCheck \<notin> set as"
    by auto
  with Cons.IH [of "snd (server_step jl fi mon a srv)"] show ?case
    by (simp add: server_step_files)
qed

lemma server_step_state_file:
  assumes "\<forall>st. files (snd (mon st)) STATE_FILE = files st STATE_FILE"
  shows "files (disk (snd (server_step jl fi mon a srv))) STATE_FILE
           = files (disk srv) STATE_FILE"
proof (cases "a = Handle PostRunCheck")
  case True
  with assms show ?thesis by (simp add: split_beta)
next
  case False
  then show ?thesis by (simp add: server_step_files)
qed

lemma server_run_state_file:
  assumes "\<forall>st. files (snd (mon st)) STATE_FILE = files st STATE_FILE"
  shows "files (disk (server_run jl fi mon as srv)) STATE_FILE = files (disk srv) STATE_FILE"
proof (induction as arbitrary: srv)
  case Nil
  then show ?case by simp
next
  case (Cons a as)
  from Cons [of "snd (server_step jl fi mon a srv)"]
    server_step_state_file [OF assms, of jl fi a srv]
  show ?case by simp
qed

text \<open>
  C8, amended. Every operation of the server but the on-demand check leaves the state
  file as it is: the load at import, the two directories made at start, each refresh
  tick, the index page and the metrics route, one by one and in any sequence. The
  on-demand check starts the external monitoring script, and after it the state file
  is what that script has left. The server writes it in no other way: when the script
  leaves the state file alone, so does every sequence of operations, the on-demand
  check among them.
\<close>

theorem state_file_changed_by_monitor_only:
  "(a \<noteq> Handle PostRunCheck \<longrightarrow>
      files (disk (snd (server_step json_load fromisoformat monitor a srv))) STATE_FILE
        = files (disk srv) STATE_FILE)
   \<and> files (disk (initial_server json_load st)) STATE_FILE = files st STATE_FILE
   \<and> (Handle PostRunCheck \<notin> set as \<longrightarrow>
        files (disk (server_run json_load fromisoformat monitor as srv)) STATE_FILE
          = files (disk srv) STATE_FILE)
   \<and> files (disk (snd (server_step json_load fromisoformat monitor (Handle PostRunCheck) srv)))
        STATE_FILE
       = files (snd (monitor (disk srv))) STATE_FILE
   \<and> ((\<forall>st'. files (snd (monitor st')) STATE_FILE = files st' STATE_FILE) \<longrightarrow>
        files (disk (server_run json_load fromisoformat monitor as srv)) STATE_FILE
          = files (disk srv) STATE_FILE)"
  using load_data_store [of json_load st]
    server_run_state_file [of monitor json_load fromisoformat as srv]
  by (simp add: server_step_files server_run_files initial_server_def split_beta)

theorem state_file_changed_by_monitor_only_witness:
  "files (disk (server_run (\<lambda>text. None) fromisoformat_basic
      (\<lambda>st. (Runs (Some 5) 0 (Decoded []) (Decoded []),
             st\<lparr>files := (files st)(ALERT_FILE \<mapsto> File ''slow build'')\<rparr>))
      [Startup, RefreshTick, Handle PostRunCheck, Handle (GetMetrics 0 0 0 0), Handle GetIndex]
      \<lparr>loaded = JObj [], disk = \<lparr>files = [STATE_FILE \<mapsto> File ''{}''], dirs = {}\<rparr>\<rparr>))
     STATE_FILE
   = Some (File ''{}'')
   \<and> files (disk (server_run (\<lambda>text. None) fromisoformat_basic (\<lambda>st. (CannotStart [], st))
      [Startup, RefreshTick, Handle (GetMetrics 0 0 0 0), Handle GetIndex]
      \<lparr>loaded = JObj [], disk = \<lparr>files = [STATE_FILE \<mapsto> File ''{}''], dirs = {}\<rparr>\<rparr>))
     STATE_FILE
   = Some (File ''{}'')
   \<and> files (disk (snd (server_step (\<lambda>text. None) fromisoformat_basic
      (\<lambda>st. (CannotStart [], st)) RefreshTick
      \<lparr>loaded = JObj [], disk = \<lparr>files = [STATE_FILE \<mapsto> File ''{}''], dirs = {}\<rparr>\<rparr>)))
     STATE_FILE
   = Some (File ''{}'')"
proof -
  let ?srv = "\<lparr>loaded = JObj [], disk = \<lparr>files = [STATE_FILE \<mapsto> File ''{}''], dirs = {}\<rparr>\<rparr>"
  let ?mon = "\<lambda>st. (Runs (Some 5) 0 (Decoded []) (Decoded []),
             st\<lparr>files := (files st)(ALERT_FILE \<mapsto> File ''slow build'')\<rparr>)"
  let ?idle = "\<lambda>st. (CannotStart [], st)"
  let ?as1 = "[Startup, RefreshTick, Handle PostRunCheck, Handle (GetMetrics 0 0 0 0),
               Handle GetIndex]"
  let ?as2 = "[Startup, RefreshTick, Handle (GetMetrics 0 0 0 0), Handle GetIndex]"
  have h: "\<forall>st'. files (snd (?mon st')) STATE_FILE = files st' STATE_FILE"
    by (simp add: ALERT_FILE_def STATE_FILE_def)
  have h2: "Handle PostRunCheck \<notin> set ?as2" and h3: "RefreshTick \<noteq> Handle PostRunCheck"
    by simp_all
  have s: "files (disk ?srv) STATE_FILE = Some (File ''{}'')"
    by simp
  note T1 = state_file_changed_by_monitor_only [where monitor = ?mon and srv = ?srv
      and a = RefreshTick and as = ?as1
      and json_load = "\<lambda>text. None" and fromisoformat = fromisoformat_basic]
  note T2 = state_file_changed_by_monitor_only [where monitor = ?idle and srv = ?srv
      and a = RefreshTick and as = ?as2
      and json_load = "\<lambda>text. None" and fromisoformat = fromisoformat_basic]
  have 1: "files (disk (server_run (\<lambda>text. None) fromisoformat_basic ?mon ?as1 ?srv))
      STATE_FILE = Some (File ''{}'')"
    by (rule trans [OF mp [OF T1 [THEN conjunct2, THEN conjunct2, THEN conjunct2,
                                 THEN conjunct2] h] s])
  have 2: "files (disk (server_run (\<lambda>text. None) fromisoformat_basic ?idle ?as2 ?srv))
      STATE_FILE = Some (File ''{}'')"
    by (rule trans [OF mp [OF T2 [THEN conjunct2, THEN conjunct2, THEN conjunct1] h2] s])
  have 3: "files (disk (snd (server_step (\<lambda>text. None) fromisoformat_basic ?idle
      RefreshTick ?srv))) STATE_FILE = Some (File ''{}'')"
    by (rule trans [OF mp [OF T2 [THEN conjunct1] h3] s])
  from 1 2 3 show ?thesis by (intro conjI)
qed

text \<open>
  C8 as it is stated has every request handler leave the state file unchanged. Here
  the monitoring script writes a new state file, as it is there to do; the handler of
  the on-demand check starts it, and after the handler the state file has changed.
\<close>

theorem run_check_changes_state_file_counterexample:
  "files (disk \<lparr>loaded = JObj [], disk = \<lparr>files = [STATE_FILE \<mapsto> File ''{}''], dirs = {}\<rparr>\<rparr>)
     STATE_FILE
   = Some (File ''{}'')
   \<and> files (disk (snd (server_step (\<lambda>text. None) fromisoformat_basic
      (\<lambda>st. (Runs (Some 5) 0 (Decoded []) (Decoded []),
             st\<lparr>files := (files st)(STATE_FILE \<mapsto> File ''{ consecutive_failures: 1 }'')\<rparr>))
      (Handle PostRunCheck)
      \<lparr>loaded = JObj [], disk = \<lparr>files = [STATE_FILE \<mapsto> File ''{}''], dirs = {}\<rparr>\<rparr>)))
     STATE_FILE
   = Some (File ''{ consecutive_failures: 1 }'')"
  by simp

section \<open>Properties of the protection configurator\<close>

subsection \<open>Invariants of a run\<close>

lemma io_inv_bind:
  assumes "io_inv I X R m" and "\<And>x. io_inv I X R (f x)"
  shows "io_inv I X R (bind_io m f)"
  unfolding io_inv_def
proof (intro allI impI)
  fix t assume t: "I t"
  obtain r t' where mt: "m t = (r, t')" by (cases "m t")
  show "case bind_io m f t of (Return x, t') \<Rightarrow> I t' | (Exit c, t') \<Rightarrow> X c t'
          | (Raise e, t') \<Rightarrow> R e t'"
  proof (cases r)
    case (Return x)
    with assms(1) t mt have "I t'" by (auto simp: io_inv_def)
    with assms(2) [of x] have "case f x t' of (Return x, t') \<Rightarrow> I t' | (Exit c, t') \<Rightarrow> X c t'
          | (Raise e, t') \<Rightarrow> R e t'"
      by (simp add: io_inv_def)
    with Return mt show ?thesis by (simp add: bind_io_def)
  next
    case (Exit c)
    with assms(1) t mt show ?thesis by (auto simp: io_inv_def bind_io_def)
  next
    case (Raise e)
    with assms(1) t mt show ?thesis by (auto simp: io_inv_def bind_io_def)
  qed
qed

lemma io_inv_return: "io_inv I X R (return_io x)"
  by (simp add: io_inv_def return_io_def)

lemma io_inv_exit: "sound_inv w okm I X R \<Longrightarrow> io_inv I X R (exit_io c)"
  by (simp add: io_inv_def exit_io_def sound_inv_def)

lemma io_inv_raise: "sound_inv w okm I X R \<Longrightarrow> io_inv I X R (raise_io e)"
  by (simp add: io_inv_def raise_io_def sound_inv_def)

lemma io_inv_lift: "sound_inv w okm I X R \<Longrightarrow> io_inv I X R (lift_exn r)"
  by (cases r) (simp_all add: lift_exn_def io_inv_return io_inv_raise)

lemma io_inv_prints: "sound_inv w okm I X R \<Longrightarrow> io_inv I X R (prints ls)"
proof -
  have "filter is_request (map Print ls) = []"
    by (induction ls) (simp_all add: is_request_def)
  moreover assume "sound_inv w okm I X R"
  ultimately show ?thesis
    by (simp add: io_inv_def prints_def sound_inv_def)
qed

lemma io_inv_emit:
  "sound_inv w okm I X R \<Longrightarrow> \<not> is_request e \<Longrightarrow> io_inv I X R (emit e)"
  by (simp add: io_inv_def emit_def sound_inv_def)

lemma io_inv_make_request:
  "sound_inv w okm I X R \<Longrightarrow> okm method \<Longrightarrow> io_inv I X R (make_request w method ep b)"
  by (auto simp: io_inv_def make_request_def sound_inv_def split: http_result.splits)

lemma io_inv_response_json: "sound_inv w okm I X R \<Longrightarrow> io_inv I X R (response_json r)"
  by (simp add: response_json_def io_inv_return io_inv_raise split: option.splits)

lemma io_inv_get_repository_info:
  assumes s: "sound_inv w okm I X R" and g: "okm GET"
  shows "io_inv I X R (get_repository_info w)"
  unfolding get_repository_info_def
  by (intro io_inv_bind io_inv_make_request [OF s g])
     (auto intro!: io_inv_response_json [OF s] io_inv_bind io_inv_prints [OF s]
        io_inv_exit [OF s])

lemma io_inv_get_branch_protection:
  assumes s: "sound_inv w okm I X R" and g: "okm GET"
  shows "io_inv I X R (get_branch_protection w branch)"
  unfolding get_branch_protection_def
  by (intro io_inv_bind io_inv_make_request [OF s g])
     (auto intro!: io_inv_response_json [OF s] io_inv_bind io_inv_prints [OF s] io_inv_return)

lemma io_inv_print_repository_summary:
  assumes s: "sound_inv w okm I X R" and g: "okm GET"
  shows "io_inv I X R (print_repository_summary w)"
  unfolding print_repository_summary_def
  by (intro io_inv_bind io_inv_prints [OF s] io_inv_lift [OF s]
      io_inv_get_repository_info [OF s g])

lemma io_inv_verify_branch:
  assumes s: "sound_inv w okm I X R" and g: "okm GET"
  shows "io_inv I X R (verify_branch w branch)"
  unfolding verify_branch_def
  by (intro io_inv_bind io_inv_get_branch_protection [OF s g])
     (auto intro!: io_inv_bind io_inv_prints [OF s] io_inv_lift [OF s])

lemma io_inv_verify_loop:
  assumes s: "sound_inv w okm I X R" and g: "okm GET"
  shows "io_inv I X R (verify_loop w bs)"
  by (induction bs) (auto intro!: io_inv_bind io_inv_return io_inv_verify_branch [OF s g])

lemma io_inv_verify_protection_status:
  assumes s: "sound_inv w okm I X R" and g: "okm GET"
  shows "io_inv I X R (verify_protection_status w bs)"
  unfolding verify_protection_status_def
  by (intro io_inv_bind io_inv_prints [OF s] io_inv_verify_loop [OF s g])

lemma io_inv_authenticate:
  assumes s: "sound_inv w okm I X R"
  shows "io_inv I X R (authenticate w)"
  unfolding io_inv_def
proof (intro allI impI)
  fix t assume t: "I t"
  have p: "\<And>es. filter is_request es = [] \<Longrightarrow> I (t @ es)"
    using s t by (simp add: sound_inv_def)
  have x: "\<And>es c. filter is_request es = [] \<Longrightarrow> X c (t @ es)"
    using s p by (simp add: sound_inv_def)
  have r: "\<And>es e. filter is_request es = [] \<Longrightarrow> R e (t @ es)"
    using s p by (simp add: sound_inv_def)
  show "case authenticate w t of (Return x, t') \<Rightarrow> I t' | (Exit c, t') \<Rightarrow> X c t'
          | (Raise e, t') \<Rightarrow> R e t'"
    using p [of "[]"] p x r
    by (simp add: authenticate_def get_github_token_def token_from_cli_def token_not_found_def
        bind_io_def emit_def prints_def exit_io_def return_io_def raise_io_def is_request_def
        split: option.splits gh_result.splits)
qed

lemma io_inv_before_prompt:
  assumes s: "sound_inv w okm I X R" and g: "okm GET"
  shows "io_inv I X R (before_prompt w)"
  unfolding before_prompt_def
  by (intro io_inv_bind io_inv_prints [OF s] io_inv_authenticate [OF s]
      io_inv_print_repository_summary [OF s g] io_inv_verify_protection_status [OF s g])

lemma io_inv_confirm:
  assumes s: "sound_inv w okm I X R"
  shows "io_inv I X R (confirm w)"
  unfolding confirm_def
  by (auto split: input_result.splits
      intro!: io_inv_bind io_inv_return io_inv_emit [OF s] io_inv_prints [OF s]
        io_inv_exit [OF s] io_inv_raise [OF s]
      simp: is_request_def)

lemma io_inv_set_branch_protection:
  assumes s: "sound_inv w okm I X R" and p: "okm PUT"
  shows "io_inv I X R (set_branch_protection w branch config)"
  unfolding set_branch_protection_def
  by (intro io_inv_bind io_inv_prints [OF s] io_inv_make_request [OF s p])
     (auto intro!: io_inv_bind io_inv_prints [OF s] io_inv_return)

lemma io_inv_apply_loop:
  assumes s: "sound_inv w okm I X R" and p: "okm PUT"
  shows "io_inv I X R (apply_loop w cfgs n)"
proof (induction cfgs arbitrary: n)
  case Nil
  then show ?case by (simp add: io_inv_return)
next
  case (Cons bc cfgs)
  obtain branch config where bc: "bc = (branch, config)" by (cases bc)
  show ?case
    unfolding bc apply_loop.simps
    using Cons
    by (intro io_inv_bind io_inv_set_branch_protection [OF s p])
       (auto intro!: io_inv_bind io_inv_prints [OF s] io_inv_emit [OF s] simp: is_request_def)
qed

lemma io_inv_finish:
  assumes s: "sound_inv w okm I X R" and p: "okm PUT" and g: "okm GET"
  shows "io_inv I X R (finish w n)"
  unfolding finish_def enable_vulnerability_alerts_def enable_automated_security_fixes_def
  by (intro io_inv_bind io_inv_prints [OF s] io_inv_make_request [OF s p] io_inv_return
      io_inv_verify_protection_status [OF s g])

lemma io_inv_apply_changes:
  assumes s: "sound_inv w okm I X R" and p: "okm PUT" and g: "okm GET"
  shows "io_inv I X R (apply_changes w)"
  unfolding apply_changes_def
  by (intro io_inv_bind io_inv_prints [OF s] io_inv_apply_loop [OF s p] io_inv_finish [OF s p g])

lemma io_inv_main:
  assumes s: "sound_inv w okm I X R" and p: "okm PUT" and g: "okm GET"
  shows "io_inv I X R (main w)"
  unfolding main_def
  by (intro io_inv_bind io_inv_before_prompt [OF s g] io_inv_confirm [OF s]
      io_inv_apply_changes [OF s p g])

lemma is_put_is_request: "is_put e \<Longrightarrow> is_request e"
  by (cases e) (simp_all add: is_put_def is_request_def)

lemma no_request_no_put: "filter is_request es = [] \<Longrightarrow> filter is_put es = []"
  by (induction es) (auto dest: is_put_is_request split: if_splits)

lemma sound_no_put:
  "sound_inv w (\<lambda>m. m = GET) (\<lambda>t. filter is_put t = []) (\<lambda>c t. filter is_put t = [])
     (\<lambda>e t. filter is_put t = [])"
  by (simp add: sound_inv_def no_request_no_put is_put_def)

lemma sound_holds:
  "sound_inv w (\<lambda>m. True) (\<lambda>t. e0 \<in> set t) (\<lambda>c t. e0 \<in> set t) (\<lambda>e t. e0 \<in> set t)"
  by (simp add: sound_inv_def)

lemma transport_failed_append:
  "filter is_request es = [] \<Longrightarrow> transport_failed w (t @ es) = transport_failed w t"
  by (simp add: transport_failed_def)

lemma sound_transport:
  "sound_inv w (\<lambda>m. True) (\<lambda>t. \<not> transport_failed w t)
     (\<lambda>c t. transport_failed w t \<longrightarrow> c = 1) (\<lambda>e t. \<not> transport_failed w t)"
  unfolding sound_inv_def
proof (intro conjI allI impI)
  fix t r m ep b
  assume a: "\<not> transport_failed w t \<and> True
               \<and> http w (length (filter is_request t)) = Responds r"
  show "\<not> transport_failed w (t @ [Request m ep b])"
  proof
    assume "transport_failed w (t @ [Request m ep b])"
    then obtain k msg where k: "k < Suc (length (filter is_request t))"
      and f: "http w k = RequestException msg"
      by (auto simp: transport_failed_def is_request_def)
    show False
    proof (cases "k = length (filter is_request t)")
      case True
      with a f show False by simp
    next
      case False
      with k have "k < length (filter is_request t)" by simp
      with f a show False by (auto simp: transport_failed_def)
    qed
  qed
qed (simp_all add: transport_failed_append)

lemmas script_simps = script_def main_def before_prompt_def confirm_def apply_changes_def
  finish_def authenticate_def get_github_token_def token_from_cli_def token_not_found_def
  print_repository_summary_def get_repository_info_def verify_protection_status_def
  verify_branch_def get_branch_protection_def set_branch_protection_def
  enable_vulnerability_alerts_def enable_automated_security_fixes_def make_request_def
  response_json_def branches_def create_branch_configs_def bind_io_def prints_def emit_def
  return_io_def exit_io_def raise_io_def lift_exn_def is_request_def is_put_def lower_def
  lower_char_def

subsection \<open>Reading a branch's protection\<close>

text \<open>
  C6. When the API answers the request, \<open>get_branch_protection\<close> returns the decoded
  settings on 200, \<open>None\<close> on 404, and on any other status prints a warning and returns
  \<open>None\<close> as well; it returns in each case, and the verification of that branch goes
  on to its end.
\<close>

theorem branch_protection_by_status:
  assumes "http w (length (filter is_request t)) = Responds r"
  shows "(status_code r = 200 \<and> json_body r = Some j \<longrightarrow>
            get_branch_protection w branch t
              = (Return j, t @ [Request GET (''branches/'' @ branch @ ''/protection'') None]))
       \<and> (status_code r = 404 \<longrightarrow>
            get_branch_protection w branch t
              = (Return JNull, t @ [Request GET (''branches/'' @ branch @ ''/protection'') None]))
       \<and> (status_code r \<noteq> 200 \<and> status_code r \<noteq> 404 \<longrightarrow>
            get_branch_protection w branch t
              = (Return JNull,
                 t @ [Request GET (''branches/'' @ branch @ ''/protection'') None,
                      Print [Txt ''Failed to get branch protection for '', Txt branch,
                             Txt '': '', Num (status_code r)]])
            \<and> fst (verify_branch w branch t) = Return ())"
  using assms
  by (simp add: get_branch_protection_def verify_branch_def bind_io_def make_request_def
      response_json_def return_io_def prints_def)

theorem branch_protection_by_status_witness:
  "get_branch_protection
     ((example_world ''n'')\<lparr>http := \<lambda>k. Responds \<lparr>status_code = 200,
        json_body = Some (JObj [(''required_linear_history'', JBool True)]), text_body = []\<rparr>\<rparr>)
     ''main'' []
     = (Return (JObj [(''required_linear_history'', JBool True)]),
        [Request GET ''branches/main/protection'' None])
   \<and> get_branch_protection
     ((example_world ''n'')\<lparr>http := \<lambda>k. Responds \<lparr>status_code = 404,
        json_body = None, text_body = ''Not Found''\<rparr>\<rparr>)
     ''main'' []
     = (Return JNull, [Request GET ''branches/main/protection'' None])
   \<and> get_branch_protection
     ((example_world ''n'')\<lparr>http := \<lambda>k. Responds \<lparr>status_code = 500,
        json_body = None, text_body = ''Server Error''\<rparr>\<rparr>)
     ''develop'' []
     = (Return JNull,
        [Request GET ''branches/develop/protection'' None,
         Print [Txt ''Failed to get branch protection for '', Txt ''develop'', Txt '': '',
                Num 500]])"
  using branch_protection_by_status
      [where w = "(example_world ''n'')\<lparr>http := \<lambda>k. Responds \<lparr>status_code = 200,
        json_body = Some (JObj [(''required_linear_history'', JBool True)]), text_body = []\<rparr>\<rparr>"
        and t = "[]" and branch = "''main''"
        and j = "JObj [(''required_linear_history'', JBool True)]"
        and r = "\<lparr>status_code = 200,
        json_body = Some (JObj [(''required_linear_history'', JBool True)]), text_body = []\<rparr>"]
    branch_protection_by_status
      [where w = "(example_world ''n'')\<lparr>http := \<lambda>k. Responds \<lparr>status_code = 404,
        json_body = None, text_body = ''Not Found''\<rparr>\<rparr>"
        and t = "[]" and branch = "''main''" and j = JNull
        and r = "\<lparr>status_code = 404, json_body = None, text_body = ''Not Found''\<rparr>"]
    branch_protection_by_status
      [where w = "(example_world ''n'')\<lparr>http := \<lambda>k. Responds \<lparr>status_code = 500,
        json_body = None, text_body = ''Server Error''\<rparr>\<rparr>"
        and t = "[]" and branch = "''develop''" and j = JNull
        and r = "\<lparr>status_code = 500, json_body = None, text_body = ''Server Error''\<rparr>"]
  by simp

subsection \<open>Fatal setup errors\<close>

lemma script_transport:
  "transport_failed w (snd (script w)) \<Longrightarrow> fst (script w) = 1"
proof -
  assume tf: "transport_failed w (snd (script w))"
  have "io_inv (\<lambda>t. \<not> transport_failed w t)
     (\<lambda>c t. transport_failed w t \<longrightarrow> c = 1) (\<lambda>e t. \<not> transport_failed w t) (main w)"
    by (rule io_inv_main [OF sound_transport]) simp_all
  moreover have "\<not> transport_failed w []"
    by (simp add: transport_failed_def)
  ultimately have c: "case main w [] of
       (Return x, t') \<Rightarrow> \<not> transport_failed w t'
     | (Exit c, t') \<Rightarrow> transport_failed w t' \<longrightarrow> c = 1
     | (Raise e, t') \<Rightarrow> \<not> transport_failed w t'"
    by (simp add: io_inv_def)
  obtain r t' where m: "main w [] = (r, t')" by (cases "main w []")
  show ?thesis
  proof (cases r)
    case (Return x)
    with c m tf show ?thesis by (simp add: script_def)
  next
    case (Exit c')
    with c m tf show ?thesis by (simp add: script_def)
  next
    case (Raise e)
    with c m tf show ?thesis
      by (simp add: script_def transport_failed_append is_request_def split: if_splits)
  qed
qed

lemma script_no_token:
  "no_token w \<Longrightarrow> fst (script w) = 1 \<and> filter is_request (snd (script w)) = []"
  by (auto simp: no_token_def script_def main_def before_prompt_def bind_io_def prints_def
      authenticate_def get_github_token_def token_from_cli_def token_not_found_def emit_def
      exit_io_def raise_io_def is_request_def
      split: gh_result.splits)

lemma authenticate_token:
  "\<not> no_token w \<Longrightarrow> filter is_request t = [] \<Longrightarrow>
   \<exists>token t'. authenticate w t = (Return token, t') \<and> filter is_request t' = []"
  by (auto simp: no_token_def authenticate_def get_github_token_def token_from_cli_def
      token_not_found_def bind_io_def emit_def return_io_def is_request_def
      split: option.splits gh_result.splits)

lemma script_repository_info_refused:
  assumes "\<not> no_token w" and "repository_info_refused w"
  shows "fst (script w) = 1 \<and> filter is_request (snd (script w)) = [Request GET [] None]"
proof -
  let ?banner = "map Print [[Txt (replicate 60 CHR ''='')],
                      [Txt ''Code-Guardian GitHub Branch Protection Setup''],
                      [Txt (replicate 60 CHR ''='')],
                      []]"
  have "filter is_request ?banner = []"
    by (simp add: is_request_def)
  with authenticate_token [OF assms(1), of ?banner]
  obtain token t' where a: "authenticate w ?banner = (Return token, t')"
    and t': "filter is_request t' = []"
    by blast
  from assms(2) obtain r where r: "http w 0 = Responds r" and s: "status_code r \<noteq> 200"
    by (auto simp: repository_info_refused_def split: http_result.splits)
  have "main w [] = (Exit 1,
      t' @ [Print [Txt ''Repository Information:''], Request GET [] None,
            Print [Txt ''Failed to get repository info: '', Num (status_code r)],
            Print [Txt (text_body r)]])"
    using a t' r s
    by (simp add: main_def before_prompt_def bind_io_def prints_def
        print_repository_summary_def get_repository_info_def make_request_def exit_io_def
        is_request_def)
  with t' show ?thesis
    by (simp add: script_def is_request_def)
qed

text \<open>
  C7, amended. The run ends with exit code 1, before any request, when neither the
  environment variable nor the \<open>gh\<close> tool gives a token; it ends with exit code 1,
  after the one request, when there is a token and the repository-info request is
  answered with another status than 200. These are not the only such runs: whenever
  a request that was sent, the first or a later one, failed in transport, the exit
  code is 1 as well.
\<close>

theorem fatal_setup_errors:
  "(no_token w \<longrightarrow> fst (script w) = 1 \<and> filter is_request (snd (script w)) = [])
   \<and> (\<not> no_token w \<and> repository_info_refused w \<longrightarrow>
        fst (script w) = 1 \<and> filter is_request (snd (script w)) = [Request GET [] None])
   \<and> (transport_failed w (snd (script w)) \<longrightarrow> fst (script w) = 1)"
  using script_no_token [of w] script_repository_info_refused [of w] script_transport [of w]
  by blast

theorem fatal_setup_errors_witness:
  "no_token ((example_world ''y'')\<lparr>env_token := None\<rparr>)
   \<and> fst (script ((example_world ''y'')\<lparr>env_token := None\<rparr>)) = 1
   \<and> repository_info_refused ((example_world ''y'')\<lparr>http := \<lambda>k. Responds
         \<lparr>status_code = 403, json_body = None, text_body = ''Forbidden''\<rparr>\<rparr>)
   \<and> fst (script ((example_world ''y'')\<lparr>http := \<lambda>k. Responds
         \<lparr>status_code = 403, json_body = None, text_body = ''Forbidden''\<rparr>\<rparr>)) = 1
   \<and> transport_failed ((example_world ''y'')\<lparr>http := \<lambda>k. RequestException ''no route''\<rparr>)
        (snd (script ((example_world ''y'')\<lparr>http := \<lambda>k. RequestException ''no route''\<rparr>)))
   \<and> fst (script ((example_world ''y'')\<lparr>http := \<lambda>k. RequestException ''no route''\<rparr>)) = 1"
proof -
  let ?w1 = "(example_world ''y'')\<lparr>env_token := None\<rparr>"
  let ?w2 = "(example_world ''y'')\<lparr>http := \<lambda>k. Responds
         \<lparr>status_code = 403, json_body = None, text_body = ''Forbidden''\<rparr>\<rparr>"
  let ?w3 = "(example_world ''y'')\<lparr>http := \<lambda>k. RequestException ''no route''\<rparr>"
  have h1: "no_token ?w1"
    by (simp add: no_token_def example_world_def)
  have h2: "\<not> no_token ?w2 \<and> repository_info_refused ?w2"
    by (simp add: no_token_def repository_info_refused_def example_world_def)
  have "filter is_request (snd (script ?w3)) = [Request GET [] None]"
    by (simp add: script_simps example_world_def)
  then have h3: "transport_failed ?w3 (snd (script ?w3))"
    by (simp add: transport_failed_def)
  from h1 h2 h3 fatal_setup_errors [of ?w1] fatal_setup_errors [of ?w2]
    fatal_setup_errors [of ?w3]
  show ?thesis by blast
qed

text \<open>
  C7 as it is stated says that these two are the only runs that end with another exit
  code than 0. In this run the token is there and the repository-info request is
  answered with 200; the next request, the first reading of a branch's protection,
  fails in transport, and the exit code is 1.
\<close>

theorem later_transport_failure_counterexample:
  "fst (script ((example_world ''y'')\<lparr>http := \<lambda>k. if k = 0 then example_http 0
                                                  else RequestException ''connection reset''\<rparr>)) = 1
   \<and> \<not> no_token ((example_world ''y'')\<lparr>http := \<lambda>k. if k = 0 then example_http 0
                                                  else RequestException ''connection reset''\<rparr>)
   \<and> \<not> repository_info_refused ((example_world ''y'')\<lparr>http := \<lambda>k. if k = 0 then example_http 0
                                                  else RequestException ''connection reset''\<rparr>)"
  by (simp add: script_simps example_world_def example_http_def example_repository_def
      no_token_def repository_info_refused_def)

subsection \<open>The confirmation\<close>

lemma bind_io_Return: "m t = (Return x, t') \<Longrightarrow> bind_io m f t = f x t'"
  by (simp add: bind_io_def)

lemma bind_io_Exit: "m t = (Exit c, t') \<Longrightarrow> bind_io m f t = (Exit c, t')"
  by (simp add: bind_io_def)

lemma bind_io_Raise: "m t = (Raise e, t') \<Longrightarrow> bind_io m f t = (Raise e, t')"
  by (simp add: bind_io_def)

lemma confirm_unconfirmed:
  assumes "\<not> confirmed w"
  shows "\<exists>es. filter is_request es = []
           \<and> (confirm w t = (Exit 0, t @ es) \<or> (\<exists>e. confirm w t = (Raise e, t @ es)))"
proof (cases "user_input w")
  case (Typed r)
  with assms have "lower r \<notin> set [''y'', ''yes'']"
    by (simp add: confirmed_def)
  with Typed have "confirm w t = (Exit 0, t @ [Prompt ''Do you want to proceed with setting up branch protection rules? (y/N): '', Print [Txt ''Setup cancelled by user.'']])"
    by (simp add: confirm_def bind_io_def emit_def prints_def exit_io_def)
  then show ?thesis
    by (intro exI [of _ "[Prompt ''Do you want to proceed with setting up branch protection rules? (y/N): '', Print [Txt ''Setup cancelled by user.'']]"])
       (simp add: is_request_def)
next
  case InputEOF
  then have "confirm w t = (Raise EOFError, t @ [Prompt ''Do you want to proceed with setting up branch protection rules? (y/N): ''])"
    by (simp add: confirm_def bind_io_def emit_def raise_io_def)
  then show ?thesis
    by (intro exI [of _ "[Prompt ''Do you want to proceed with setting up branch protection rules? (y/N): '']"])
       (simp add: is_request_def)
next
  case InputInterrupt
  then have "confirm w t = (Raise KeyboardInterrupt, t @ [Prompt ''Do you want to proceed with setting up branch protection rules? (y/N): ''])"
    by (simp add: confirm_def bind_io_def emit_def raise_io_def)
  then show ?thesis
    by (intro exI [of _ "[Prompt ''Do you want to proceed with setting up branch protection rules? (y/N): '']"])
       (simp add: is_request_def)
qed

lemma confirm_stops:
  assumes "\<not> confirmed w"
  shows "bind_io (confirm w) f t = confirm w t"
  using confirm_unconfirmed [OF assms, of t]
  by (auto simp: bind_io_Exit bind_io_Raise)

lemma main_unconfirmed:
  assumes "\<not> confirmed w"
  shows "main w t = bind_io (before_prompt w) (\<lambda>_. confirm w) t"
proof -
  obtain r t' where b: "before_prompt w t = (r, t')" by (cases "before_prompt w t")
  show ?thesis
  proof (cases r)
    case (Return x)
    with b show ?thesis
      by (simp add: main_def bind_io_Return confirm_stops [OF assms])
  next
    case (Exit c)
    with b show ?thesis by (simp add: main_def bind_io_Exit)
  next
    case (Raise e)
    with b show ?thesis by (simp add: main_def bind_io_Raise)
  qed
qed

lemma io_inv_uniform:
  assumes "io_inv P (\<lambda>c. P) (\<lambda>e. P) m" and "P t"
  shows "P (snd (m t))"
proof -
  obtain r t' where mt: "m t = (r, t')" by (cases "m t")
  from assms have "case m t of (Return x, t') \<Rightarrow> P t' | (Exit c, t') \<Rightarrow> P t'
                     | (Raise e, t') \<Rightarrow> P t'"
    by (simp add: io_inv_def)
  with mt show ?thesis by (cases r) simp_all
qed

lemma script_trace:
  "\<exists>es. snd (script w) = snd (main w []) @ es \<and> filter is_request es = []"
proof -
  obtain r t' where mt: "main w [] = (r, t')" by (cases "main w []")
  show ?thesis
  proof (cases r)
    case (Return x)
    with mt show ?thesis by (simp add: script_def)
  next
    case (Exit c)
    with mt show ?thesis by (simp add: script_def)
  next
    case (Raise e)
    with mt show ?thesis by (simp add: script_def is_request_def)
  qed
qed

lemma script_unconfirmed:
  assumes "\<not> confirmed w"
  shows "filter is_put (snd (script w)) = []"
proof -
  have "io_inv (\<lambda>t. filter is_put t = []) (\<lambda>c t. filter is_put t = [])
          (\<lambda>e t. filter is_put t = []) (bind_io (before_prompt w) (\<lambda>_. confirm w))"
    by (intro io_inv_bind io_inv_before_prompt [OF sound_no_put] io_inv_confirm [OF sound_no_put])
       simp
  then have "filter is_put (snd (bind_io (before_prompt w) (\<lambda>_. confirm w) [])) = []"
    by (rule io_inv_uniform) simp
  then have "filter is_put (snd (main w [])) = []"
    by (simp add: main_unconfirmed [OF assms])
  moreover obtain es where "snd (script w) = snd (main w []) @ es"
    and "filter is_request es = []"
    using script_trace [of w] by blast
  ultimately show ?thesis
    by (simp add: no_request_no_put)
qed

lemma script_cancelled:
  assumes "fst (before_prompt w []) = Return ()"
    and "user_input w = Typed r" and "lower r \<notin> set [''y'', ''yes'']"
  shows "script w
     = (0, snd (before_prompt w [])
           @ [Prompt ''Do you want to proceed with setting up branch protection rules? (y/N): '',
              Print [Txt ''Setup cancelled by user.'']])"
proof -
  let ?t1 = "snd (before_prompt w [])"
  from assms(1) have b: "before_prompt w [] = (Return (), ?t1)"
    by (cases "before_prompt w []") simp
  have c: "confirm w ?t1 = (Exit 0, ?t1
           @ [Prompt ''Do you want to proceed with setting up branch protection rules? (y/N): '',
              Print [Txt ''Setup cancelled by user.'']])"
    using assms(2,3) by (simp add: confirm_def bind_io_def emit_def prints_def exit_io_def)
  have "main w [] = (Exit 0, ?t1
           @ [Prompt ''Do you want to proceed with setting up branch protection rules? (y/N): '',
              Print [Txt ''Setup cancelled by user.'']])"
    unfolding main_def
    by (simp add: bind_io_Return [where m = "before_prompt w", OF b]
        bind_io_Exit [where m = "confirm w", OF c])
  then show ?thesis
    by (simp add: script_def)
qed

lemma after_bind:
  assumes "P (snd (m t))" and "\<And>x. io_inv P (\<lambda>c. P) (\<lambda>e. P) (f x)"
  shows "P (snd (bind_io m f t))"
proof -
  obtain r t' where mt: "m t = (r, t')" by (cases "m t")
  with assms(1) have p: "P t'" by simp
  show ?thesis
  proof (cases r)
    case (Return x)
    with mt have "bind_io m f t = f x t'" by (simp add: bind_io_Return)
    with io_inv_uniform [OF assms(2) [of x] p] show ?thesis by simp
  next
    case (Exit c)
    with p mt show ?thesis by (simp add: bind_io_Exit)
  next
    case (Raise e)
    with p mt show ?thesis by (simp add: bind_io_Raise)
  qed
qed

lemma set_branch_protection_sends:
  "Request PUT (''branches/'' @ branch @ ''/protection'') (Some (protection_data branch config))
     \<in> set (snd (set_branch_protection w branch config t))"
  by (simp add: set_branch_protection_def bind_io_def prints_def make_request_def return_io_def
      split: http_result.splits)

lemma apply_changes_sends:
  "Request PUT ''branches/main/protection''
      (Some (protection_data ''main'' (snd (hd create_branch_configs))))
     \<in> set (snd (apply_changes w t))"
proof -
  obtain c1 rest where cfgs: "create_branch_configs = (''main'', c1) # rest"
    by (simp add: create_branch_configs_def)
  have c1: "snd (hd create_branch_configs) = c1" unfolding cfgs by simp
  let ?e = "Request PUT ''branches/main/protection'' (Some (protection_data ''main'' c1))"
  let ?P = "\<lambda>t. ?e \<in> set t"
  note s = sound_holds [of w ?e]
  have sent: "?P (snd (set_branch_protection w ''main'' c1 t'))" for t'
    using set_branch_protection_sends [of "''main''" c1 w t'] by simp
  have "?P (snd (apply_loop w ((''main'', c1) # rest) 0 t'))" for t'
    unfolding apply_loop.simps
    by (rule after_bind [of ?P, OF sent])
       (auto intro!: io_inv_bind io_inv_prints [OF s] io_inv_emit [OF s]
          io_inv_apply_loop [OF s] simp: is_request_def)
  then have loop: "?P (snd (apply_loop w create_branch_configs 0 t'))" for t'
    by (simp only: cfgs)
  have "?P (snd (bind_io (apply_loop w create_branch_configs 0) (finish w)
                  (t @ map Print [[], [Txt ''Starting branch protection setup...''], []])))"
    by (rule after_bind [of ?P, OF loop]) (rule io_inv_finish [OF s], simp_all)
  moreover have "apply_changes w t
      = bind_io (apply_loop w create_branch_configs 0) (finish w)
          (t @ map Print [[], [Txt ''Starting branch protection setup...''], []])"
    unfolding apply_changes_def
    by (rule bind_io_Return [of _ _ "()"]) (simp add: prints_def)
  ultimately show ?thesis
    by (simp only: c1)
qed

lemma script_confirmed:
  assumes "fst (before_prompt w []) = Return ()" and "confirmed w"
  shows "Request PUT ''branches/main/protection''
      (Some (protection_data ''main'' (snd (hd create_branch_configs))))
     \<in> set (snd (script w))"
proof -
  let ?t1 = "snd (before_prompt w [])"
  let ?t2 = "?t1 @ [Prompt ''Do you want to proceed with setting up branch protection rules? (y/N): '']"
  from assms(1) have b: "before_prompt w [] = (Return (), ?t1)"
    by (cases "before_prompt w []") simp
  from assms(2) obtain r where r: "user_input w = Typed r" "lower r \<in> set [''y'', ''yes'']"
    by (cases "user_input w") (simp_all add: confirmed_def)
  then have c: "confirm w ?t1 = (Return (), ?t2)"
    by (simp add: confirm_def bind_io_def emit_def return_io_def)
  have "main w [] = apply_changes w ?t2"
    unfolding main_def
    by (simp add: bind_io_Return [where m = "before_prompt w", OF b]
        bind_io_Return [where m = "confirm w", OF c])
  with apply_changes_sends [of w ?t2] have "Request PUT ''branches/main/protection''
      (Some (protection_data ''main'' (snd (hd create_branch_configs))))
     \<in> set (snd (main w []))"
    by simp
  moreover obtain es where "snd (script w) = snd (main w []) @ es"
    using script_trace [of w] by blast
  ultimately show ?thesis by simp
qed

text \<open>
  C9. When the answer at the prompt is not \<open>y\<close> or \<open>yes\<close>, in any case of letters,
  the run sends no \<open>PUT\<close> request at all, neither for a branch nor for a security
  feature; when the run has come to the prompt with such an answer, it prints the
  cancellation and ends with exit code 0. With \<open>y\<close> or \<open>yes\<close> the run goes on and
  sends the \<open>PUT\<close> request for the protection of \<open>main\<close>.
\<close>

theorem confirmation_gate:
  "(\<not> confirmed w \<longrightarrow> filter is_put (snd (script w)) = [])
   \<and> (fst (before_prompt w []) = Return () \<and> user_input w = Typed r
        \<and> lower r \<notin> set [''y'', ''yes'']
      \<longrightarrow> script w
          = (0, snd (before_prompt w [])
                @ [Prompt ''Do you want to proceed with setting up branch protection rules? (y/N): '',
                   Print [Txt ''Setup cancelled by user.'']]))
   \<and> (fst (before_prompt w []) = Return () \<and> confirmed w
      \<longrightarrow> Request PUT ''branches/main/protection''
            (Some (protection_data ''main'' (snd (hd create_branch_configs))))
          \<in> set (snd (script w)))"
  using script_unconfirmed [of w] script_cancelled [of w r] script_confirmed [of w]
  by blast

theorem confirmation_gate_witness:
  "filter is_put (snd (script (example_world ''No''))) = []
   \<and> fst (script (example_world ''No'')) = 0
   \<and> Request PUT ''branches/main/protection''
        (Some (protection_data ''main'' (snd (hd create_branch_configs))))
      \<in> set (snd (script (example_world ''YES'')))"
proof -
  have b: "fst (before_prompt (example_world a) []) = Return ()" for a
    by (simp add: script_simps example_world_def example_http_def example_repository_def)
  have n: "\<not> confirmed (example_world ''No'')"
    and t: "user_input (example_world ''No'') = Typed ''No''"
    and l: "lower ''No'' \<notin> set [''y'', ''yes'']"
    and y: "confirmed (example_world ''YES'')"
    by (simp_all add: confirmed_def example_world_def lower_def lower_char_def)
  from n confirmation_gate [of "example_world ''No''" "''No''"]
  have 1: "filter is_put (snd (script (example_world ''No''))) = []"
    by blast
  from b [of "''No''"] t l confirmation_gate [of "example_world ''No''" "''No''"]
  have 2: "fst (script (example_world ''No'')) = 0"
    by simp
  from b [of "''YES''"] y confirmation_gate [of "example_world ''YES''" "''YES''"]
  have 3: "Request PUT ''branches/main/protection''
        (Some (protection_data ''main'' (snd (hd create_branch_configs))))
      \<in> set (snd (script (example_world ''YES'')))"
    by blast
  from 1 2 3 show ?thesis by blast
qed

end
